theory Spec2Isabelle
  imports Main "HOL-Library.List_Lexorder" "HOL-Library.Char_ord"
begin

section \<open>The file converter of app.py\<close>

text \<open>
  The program reads a schema document, lists the partition files of each dataset,
  parses every partition with pandas and writes it back as JSON Lines. Everything it
  does goes through the file system, the logger and three libraries (glob, json,
  pandas). The embedding makes these explicit: a record \<open>world\<close> holds the files,
  the directories, the environment, the log and a trace of the I/O operations, every
  function of app.py takes the world and returns its result with the new world, and
  a raised exception is the \<open>Inl\<close> branch of the result.
\<close>

subsection \<open>Exceptions and log records\<close>

datatype exc =
    NameError string
  | FileNotFoundError string
  | IsADirectoryError string
  | PermissionError string
  | FileExistsError string
  | JSONDecodeError string
  | KeyError string
  | TypeError
  | ValueError
  | DuplicateNames
  | ParserError
  | EmptyDataError

text \<open>
  \<open>except IOError\<close> catches the OSError family (IOError is an alias of OSError in
  Python 3); \<open>except pd.errors.ParserError\<close> catches the parser's own error only.
  \<open>DuplicateNames\<close> is the ValueError pandas raises for repeated column names.
\<close>

fun is_IOError :: "exc \<Rightarrow> bool" where
  "is_IOError (FileNotFoundError _) = True"
| "is_IOError (IsADirectoryError _) = True"
| "is_IOError (PermissionError _) = True"
| "is_IOError (FileExistsError _) = True"
| "is_IOError _ = False"

fun is_FileNotFoundError :: "exc \<Rightarrow> bool" where
  "is_FileNotFoundError (FileNotFoundError _) = True"
| "is_FileNotFoundError _ = False"

datatype level = INFO | WARNING | ERROR | CRITICAL

text \<open>
  Two loggers write records: the module logger the decorator hands to every function
  (\<open>App\<close>), and the root logger that \<open>convert_file\<close> reaches through
  \<open>logging.critical\<close> (\<open>Root\<close>). A record keeps its level and the fixed part of
  its message; the text of an interpolated exception is left out.
\<close>

datatype logger = App | Root

type_synonym log_record = "logger \<times> level \<times> string"

datatype io_op =
    OpenSchema string
  | Glob string
  | ReadCsv string
  | Makedirs string
  | WriteJson string

subsection \<open>JSON scalars and the schema document\<close>

text \<open>
  The schema document has the shape \<open>{dataset: [{key: scalar, ...}, ...], ...}\<close>.
  A dict is a map; the values of a column entry are JSON scalars (numbers with a
  fraction and nested values are not part of the model).
\<close>

datatype scalar = SNull | SBool bool | SInt int | SStr string

type_synonym column = "string \<rightharpoonup> scalar"

type_synonym schema = "string \<rightharpoonup> column list"

subsection \<open>The world\<close>

text \<open>
  \<open>files\<close> lists the regular files by absolute path, each with its lines, in the
  order the directory enumeration returns them; \<open>dirs\<close> are the directories made
  so far; \<open>readonly\<close> are the paths the process may not create or open for
  writing; \<open>json_load\<close> is the JSON decoder (the document a text denotes, or
  \<open>None\<close> when it is not one).
\<close>

record world =
  files :: "(string \<times> string list) list"
  dirs :: "string list"
  readonly :: "string list"
  cwd :: string
  environ :: "string \<rightharpoonup> string"
  json_load :: "string list \<Rightarrow> schema option"
  log :: "log_record list"
  io :: "io_op list"

type_synonym 'a res = "exc + 'a"

definition say :: "level \<Rightarrow> string \<Rightarrow> world \<Rightarrow> world" where
  "say l m w = w\<lparr>log := log w @ [(App, l, m)]\<rparr>"

definition say_root :: "level \<Rightarrow> string \<Rightarrow> world \<Rightarrow> world" where
  "say_root l m w = w\<lparr>log := log w @ [(Root, l, m)]\<rparr>"

definition did :: "io_op \<Rightarrow> world \<Rightarrow> world" where
  "did e w = w\<lparr>io := io w @ [e]\<rparr>"

subsection \<open>posixpath\<close>

definition os_path_basename :: "string \<Rightarrow> string" where
  "os_path_basename p = rev (takeWhile (\<lambda>c. c \<noteq> CHR ''/'') (rev p))"

definition rstrip :: "char \<Rightarrow> string \<Rightarrow> string" where
  "rstrip c s = rev (dropWhile (\<lambda>x. x = c) (rev s))"

text \<open>
  \<open>split\<close> cuts at the last slash and strips the trailing slashes of the head,
  unless the head is slashes only.
\<close>

definition os_path_split :: "string \<Rightarrow> string \<times> string" where
  "os_path_split p =
     (let head = rev (dropWhile (\<lambda>c. c \<noteq> CHR ''/'') (rev p));
          tail = rev (takeWhile (\<lambda>c. c \<noteq> CHR ''/'') (rev p))
      in if head \<noteq> [] \<and> \<not> list_all (\<lambda>c. c = CHR ''/'') head
         then (rstrip (CHR ''/'') head, tail) else (head, tail))"

definition os_path_join :: "string \<Rightarrow> string \<Rightarrow> string" where
  "os_path_join a b =
     (if take 1 b = ''/'' then b
      else if a = [] \<or> take 1 (rev a) = ''/'' then a @ b
      else a @ ''/'' @ b)"

text \<open>
  \<open>splitext\<close> cuts at the last dot of the last component, unless only dots come
  before it there.
\<close>

definition os_path_splitext :: "string \<Rightarrow> string \<times> string" where
  "os_path_splitext p =
     (let name = os_path_basename p;
          ext = rev (takeWhile (\<lambda>c. c \<noteq> CHR ''.'') (rev name));
          stem = take (length name - length ext - 1) name
      in if CHR ''.'' \<in> set name \<and> list_ex (\<lambda>c. c \<noteq> CHR ''.'') stem
         then (take (length p - length ext - 1) p, CHR ''.'' # ext)
         else (p, []))"

subsection \<open>Files and directories\<close>

definition resolve :: "world \<Rightarrow> string \<Rightarrow> string" where
  "resolve w p = (if take 1 p = ''/'' then p else cwd w @ ''/'' @ p)"

definition lookup_file :: "world \<Rightarrow> string \<Rightarrow> string list option" where
  "lookup_file w p = map_of (files w) (resolve w p)"

definition open_read :: "string \<Rightarrow> world \<Rightarrow> string list res" where
  "open_read p w =
     (case lookup_file w p of
        Some ls \<Rightarrow> Inr ls
      | None \<Rightarrow> if resolve w p \<in> set (dirs w) then Inl (IsADirectoryError p)
                else Inl (FileNotFoundError p))"

fun put_file :: "string \<Rightarrow> string list \<Rightarrow> (string \<times> string list) list \<Rightarrow> (string \<times> string list) list" where
  "put_file k v [] = [(k, v)]"
| "put_file k v ((k', v') # fs) = (if k = k' then (k, v) # fs else (k', v') # put_file k v fs)"

text \<open>Opening for writing truncates the file or creates it.\<close>

definition open_write :: "string \<Rightarrow> string list \<Rightarrow> world \<Rightarrow> unit res \<times> world" where
  "open_write p ls w =
     (if resolve w p \<in> set (dirs w) then (Inl (IsADirectoryError p), w)
      else if resolve w p \<in> set (readonly w) then (Inl (PermissionError p), w)
      else (Inr (), w\<lparr>files := put_file (resolve w p) ls (files w)\<rparr>))"

text \<open>\<open>os.makedirs(p, exist_ok=True)\<close>: an existing directory is accepted, a file in its place is not.\<close>

definition os_makedirs :: "string \<Rightarrow> world \<Rightarrow> unit res \<times> world" where
  "os_makedirs p w =
     (if lookup_file w p \<noteq> None then (Inl (FileExistsError p), w)
      else if resolve w p \<in> set (dirs w) then (Inr (), w)
      else if resolve w p \<in> set (readonly w) then (Inl (PermissionError p), w)
      else (Inr (), w\<lparr>dirs := dirs w @ [resolve w p]\<rparr>))"

subsection \<open>glob\<close>

text \<open>
  The two patterns of the program, \<open>src/table/part-*\<close> and \<open>src/*/part-*\<close>, with
  the directory part taken literally: the names in \<open>src\<close> and \<open>table\<close> are plain
  names, without pattern characters, and paths are compared as they are written. A
  star matches within one path component and does not match a name that starts with a
  dot. Files and directories match alike. The result keeps the order of the listing,
  the files before the directories.
\<close>

definition strip_prefix :: "string \<Rightarrow> string \<Rightarrow> string option" where
  "strip_prefix pre s =
     (if take (length pre) s = pre then Some (drop (length pre) s) else None)"

definition is_part :: "string \<Rightarrow> bool" where
  "is_part f = (take 5 f = ''part-'' \<and> CHR ''/'' \<notin> set f)"

definition is_dataset_part :: "string \<Rightarrow> bool" where
  "is_dataset_part r =
     (let d = takeWhile (\<lambda>c. c \<noteq> CHR ''/'') r
      in d \<noteq> [] \<and> take 1 d \<noteq> ''.'' \<and> length d < length r
         \<and> is_part (drop (length d + 1) r))"

definition glob_under :: "(string \<Rightarrow> bool) \<Rightarrow> string \<Rightarrow> world \<Rightarrow> string list" where
  "glob_under ok dir w =
     concat (map (\<lambda>k. case strip_prefix (resolve w dir @ ''/'') k of
                         None \<Rightarrow> []
                       | Some r \<Rightarrow> if ok r then [dir @ ''/'' @ r] else [])
                 (map fst (files w) @ dirs w))"

definition glob_table :: "string \<Rightarrow> string \<Rightarrow> world \<Rightarrow> string list" where
  "glob_table src tbl w = glob_under is_part (src @ ''/'' @ tbl) w"

definition glob_all :: "string \<Rightarrow> world \<Rightarrow> string list" where
  "glob_all src w = glob_under is_dataset_part src w"

subsection \<open>Sequencing and handlers\<close>

text \<open>
  \<open>andthen\<close> runs the next statement unless an exception is in flight;
  \<open>on_error\<close> is a handler that logs and raises again.
\<close>

definition andthen :: "'a res \<times> world \<Rightarrow> ('a \<Rightarrow> world \<Rightarrow> 'b res \<times> world) \<Rightarrow> 'b res \<times> world" where
  "andthen m f = (case m of (Inl e, w) \<Rightarrow> (Inl e, w) | (Inr x, w) \<Rightarrow> f x w)"

definition on_error :: "'a res \<times> world \<Rightarrow> (exc \<Rightarrow> world \<Rightarrow> world) \<Rightarrow> 'a res \<times> world" where
  "on_error m h = (case m of (Inl e, w) \<Rightarrow> (Inl e, h e w) | (Inr x, w) \<Rightarrow> (Inr x, w))"

subsection \<open>read_schema\<close>

definition read_schema :: "string \<Rightarrow> world \<Rightarrow> schema res \<times> world" where
  "read_schema src_base_dir w =
     (let schema_dir = os_path_join src_base_dir ''schemas.json'';
          w1 = did (OpenSchema schema_dir) w
      in case open_read schema_dir w1 of
           Inl e \<Rightarrow>
             (if is_FileNotFoundError e
              then (Inl e, say ERROR (''No file found in schema directory: '' @ schema_dir) w1)
              else (Inl e, w1))
         | Inr doc \<Rightarrow>
             (case json_load w1 doc of
                None \<Rightarrow> (Inl (JSONDecodeError schema_dir),
                          say ERROR (''Unable to parse JSON file in '' @ schema_dir) w1)
              | Some schemas \<Rightarrow> (Inr schemas,
                          say INFO (''Successfully loaded schema in '' @ schema_dir) w1)))"

subsection \<open>get_column_names\<close>

text \<open>
  \<open>sorted\<close> evaluates the key of every element first, then compares keys with
  \<open><\<close>. Numbers (booleans among them) compare with numbers and strings with
  strings; any other pair raises TypeError, and a list of two or more elements
  cannot be sorted without comparing across such a pair. The sort is stable.
\<close>

fun is_num :: "scalar \<Rightarrow> bool" where
  "is_num (SInt _) = True"
| "is_num (SBool _) = True"
| "is_num _ = False"

fun num_of :: "scalar \<Rightarrow> int" where
  "num_of (SInt i) = i"
| "num_of (SBool b) = (if b then 1 else 0)"
| "num_of _ = 0"

fun is_str :: "scalar \<Rightarrow> bool" where
  "is_str (SStr _) = True"
| "is_str _ = False"

fun str_of :: "scalar \<Rightarrow> string" where
  "str_of (SStr s) = s"
| "str_of _ = []"

definition py_sorted :: "('a \<Rightarrow> scalar) \<Rightarrow> 'a list \<Rightarrow> 'a list res" where
  "py_sorted key xs =
     (if length xs \<le> 1 then Inr xs
      else if list_all (\<lambda>x. is_num (key x)) xs then Inr (sort_key (\<lambda>x. num_of (key x)) xs)
      else if list_all (\<lambda>x. is_str (key x)) xs then Inr (sort_key (\<lambda>x. str_of (key x)) xs)
      else Inl TypeError)"

definition malformed :: string where
  "malformed = ''Malformed schema: sorting key or column_name key does not exist in schema dictionary''"

definition get_column_names :: "schema \<Rightarrow> string \<Rightarrow> string \<Rightarrow> world \<Rightarrow> scalar list res \<times> world" where
  "get_column_names schema tbl sorting_key w =
     (case schema tbl of
        None \<Rightarrow> (Inl (KeyError tbl), say ERROR malformed w)
      | Some cols \<Rightarrow>
          if list_ex (\<lambda>col. col sorting_key = None) cols
          then (Inl (KeyError sorting_key), say ERROR malformed w)
          else (case py_sorted (\<lambda>col. the (col sorting_key)) cols of
                  Inl e \<Rightarrow> (Inl e, say CRITICAL ''An unhandled exception occurred while parsing schema'' w)
                | Inr sorted_schema \<Rightarrow>
                    if list_ex (\<lambda>col_detail. col_detail ''column_name'' = None) sorted_schema
                    then (Inl (KeyError ''column_name''), say ERROR malformed w)
                    else (Inr (map (\<lambda>col_detail. the (col_detail ''column_name'')) sorted_schema),
                          say INFO (''Successfully retrieved column names for '' @ tbl @ '' from schema'') w)))"

subsection \<open>process_files\<close>

text \<open>
  \<open>process_files\<close> is a generator function: the call builds a generator object and
  runs nothing of the body. The body runs on \<open>next\<close>, from where it stopped last:
  from the top the first time (\<open>Created\<close>), from the \<open>yield\<close> inside the loop
  afterwards (\<open>Suspended\<close>, with the files still to come), and not at all once it
  has returned or raised (\<open>Closed\<close>). \<open>Inr None\<close> is StopIteration.
\<close>

datatype generator = Created string string | Suspended string string "string list" | Closed

definition process_files :: "string \<Rightarrow> string \<Rightarrow> generator" where
  "process_files src_base_dir tbl = Created src_base_dir tbl"

definition found :: "string \<Rightarrow> string \<Rightarrow> string \<Rightarrow> string" where
  "found file src_base_dir tbl = ''Successfully found '' @ file @ '' in '' @ src_base_dir @ ''/'' @ tbl"

fun gen_next :: "generator \<Rightarrow> world \<Rightarrow> string option res \<times> generator \<times> world" where
  "gen_next (Created src_base_dir tbl) w =
     (let search_dir = src_base_dir @ ''/'' @ tbl @ ''/part-*'';
          w1 = say INFO (''Search directory created: '' @ search_dir) w;
          csv_files = glob_table src_base_dir tbl w1;
          w2 = did (Glob search_dir) w1
      in case csv_files of
           [] \<Rightarrow> (Inl ValueError, Closed,
                  say ERROR (''No file found in the search directory with the pattern: '' @ search_dir) w2)
         | file # rest \<Rightarrow> (Inr (Some file), Suspended src_base_dir tbl rest,
                  say INFO (found file src_base_dir tbl) w2))"
| "gen_next (Suspended src_base_dir tbl []) w = (Inr None, Closed, w)"
| "gen_next (Suspended src_base_dir tbl (file # rest)) w =
     (Inr (Some file), Suspended src_base_dir tbl rest, say INFO (found file src_base_dir tbl) w)"
| "gen_next Closed w = (Inr None, Closed, w)"

text \<open>The files a generator still has to give, counted for termination.\<close>

fun pending :: "generator \<Rightarrow> world \<Rightarrow> nat" where
  "pending (Created src_base_dir tbl) w = length (glob_table src_base_dir tbl w) + 1"
| "pending (Suspended _ _ csv_files) w = length csv_files"
| "pending Closed w = 0"

lemma glob_table_say [simp]: "glob_table s t (say l m w) = glob_table s t w"
  by (simp add: glob_table_def glob_under_def say_def resolve_def)

lemma gen_next_pending:
  "gen_next g w = (Inr (Some x), g', w') \<Longrightarrow> pending g' w'' < pending g w"
  by (cases "(g, w)" rule: gen_next.cases) (auto simp: Let_def split: list.splits)

text \<open>A \<open>for\<close> loop over a generator: \<open>next\<close>, the body, and again.\<close>

function for_each :: "(string \<Rightarrow> world \<Rightarrow> unit res \<times> world) \<Rightarrow> generator \<Rightarrow> world \<Rightarrow> unit res \<times> world" where
  "for_each body g w =
     (case gen_next g w of
        (Inl e, g', w') \<Rightarrow> (Inl e, w')
      | (Inr None, g', w') \<Rightarrow> (Inr (), w')
      | (Inr (Some x), g', w') \<Rightarrow>
          (case body x w' of
             (Inl e, w'') \<Rightarrow> (Inl e, w'')
           | (Inr u, w'') \<Rightarrow> for_each body g' w''))"
  by pat_completeness auto
termination
  by (relation "measure (\<lambda>(body, g, w). pending g w)") (auto dest: gen_next_pending [OF sym])

text \<open>\<open>list(g)\<close>: the items of a generator, in order, until it stops or raises.\<close>

function exhaust :: "generator \<Rightarrow> world \<Rightarrow> string list res \<times> world" where
  "exhaust g w =
     (case gen_next g w of
        (Inl e, g', w') \<Rightarrow> (Inl e, w')
      | (Inr None, g', w') \<Rightarrow> (Inr [], w')
      | (Inr (Some x), g', w') \<Rightarrow>
          (case exhaust g' w' of
             (Inl e, w'') \<Rightarrow> (Inl e, w'')
           | (Inr xs, w'') \<Rightarrow> (Inr (x # xs), w'')))"
  by pat_completeness auto
termination
  by (relation "measure (\<lambda>(g, w). pending g w)") (auto dest: gen_next_pending [OF sym])

subsection \<open>pandas: read_csv\<close>

text \<open>
  The part of \<open>pd.read_csv(path, names=...)\<close> the program uses, with the defaults
  of the C parser: comma separated, the double quote as quote character (doubled
  inside a quoted field), no header row, blank lines skipped.

  The tokenizer reads the text of the file, every line with its line feed, one
  character at a time. Its states are those of the C tokenizer that the defaults
  reach. A line of blanks and tabs only is skipped like an empty one. A quoted field
  may hold commas and line ends; a quote inside an unquoted field is a character like
  any other. The end of the text inside a quoted field is a ParserError.
\<close>

datatype tstate =
    START_RECORD | WHITESPACE_LINE | START_FIELD | IN_FIELD
  | IN_QUOTED_FIELD | QUOTE_IN_QUOTED_FIELD | EAT_CRNL | EAT_CRNL_NOP

record tokens =
  t_field :: string
  t_row :: "string list"
  t_rows :: "string list list"

definition push_char :: "char \<Rightarrow> tokens \<Rightarrow> tokens" where
  "push_char c a = a\<lparr>t_field := t_field a @ [c]\<rparr>"

definition end_field :: "tokens \<Rightarrow> tokens" where
  "end_field a = a\<lparr>t_row := t_row a @ [t_field a], t_field := []\<rparr>"

definition end_line :: "tokens \<Rightarrow> tokens" where
  "end_line a = a\<lparr>t_rows := t_rows a @ [t_row a], t_row := []\<rparr>"

definition LF :: char where "LF = CHR 0x0A"

definition CR :: char where "CR = CHR 0x0D"

definition QUOTE :: char where "QUOTE = CHR 0x22"

definition is_blank :: "char \<Rightarrow> bool" where
  "is_blank c = (c = CHR '' '' \<or> c = CHR 0x09)"

definition in_field :: "char \<Rightarrow> tokens \<Rightarrow> tstate \<times> tokens" where
  "in_field c a =
     (if c = LF then (START_RECORD, end_line (end_field a))
      else if c = CR then (EAT_CRNL, end_field a)
      else if c = CHR '','' then (START_FIELD, end_field a)
      else (IN_FIELD, push_char c a))"

definition start_field :: "char \<Rightarrow> tokens \<Rightarrow> tstate \<times> tokens" where
  "start_field c a =
     (if c = LF then (START_RECORD, end_line (end_field a))
      else if c = CR then (EAT_CRNL, end_field a)
      else if c = QUOTE then (IN_QUOTED_FIELD, a)
      else if c = CHR '','' then (START_FIELD, end_field a)
      else (IN_FIELD, push_char c a))"

text \<open>
  At the start of a record an empty line is skipped. Blanks are kept aside in the
  field: the line is dropped if nothing else follows on it, and they start the first
  field otherwise.
\<close>

definition start_record :: "char \<Rightarrow> tokens \<Rightarrow> tstate \<times> tokens" where
  "start_record c a =
     (if c = LF then (START_RECORD, a)
      else if c = CR then (EAT_CRNL_NOP, a)
      else if is_blank c then (WHITESPACE_LINE, push_char c a)
      else start_field c a)"

fun tokenizer_step :: "tstate \<times> tokens \<Rightarrow> char \<Rightarrow> tstate \<times> tokens" where
  "tokenizer_step (START_RECORD, a) c = start_record c a"
| "tokenizer_step (WHITESPACE_LINE, a) c =
     (if c = LF then (START_RECORD, a\<lparr>t_field := []\<rparr>)
      else if c = CR then (EAT_CRNL_NOP, a\<lparr>t_field := []\<rparr>)
      else if is_blank c then (WHITESPACE_LINE, push_char c a)
      else in_field c a)"
| "tokenizer_step (START_FIELD, a) c = start_field c a"
| "tokenizer_step (IN_FIELD, a) c = in_field c a"
| "tokenizer_step (IN_QUOTED_FIELD, a) c =
     (if c = QUOTE then (QUOTE_IN_QUOTED_FIELD, a) else (IN_QUOTED_FIELD, push_char c a))"
| "tokenizer_step (QUOTE_IN_QUOTED_FIELD, a) c =
     (if c = QUOTE then (IN_QUOTED_FIELD, push_char c a) else in_field c a)"
| "tokenizer_step (EAT_CRNL, a) c =
     (if c = LF then (START_RECORD, end_line a)
      else if c = CHR '','' then (START_FIELD, end_field (end_line a))
      else start_record c (end_line a))"
| "tokenizer_step (EAT_CRNL_NOP, a) c =
     (if c = LF \<or> c = CHR '','' then (START_RECORD, a) else start_record c a)"

fun at_eof :: "tstate \<times> tokens \<Rightarrow> string list list res" where
  "at_eof (START_RECORD, a) = Inr (t_rows a)"
| "at_eof (WHITESPACE_LINE, a) = Inr (t_rows a)"
| "at_eof (EAT_CRNL_NOP, a) = Inr (t_rows a)"
| "at_eof (IN_QUOTED_FIELD, a) = Inl ParserError"
| "at_eof (EAT_CRNL, a) = Inr (t_rows (end_line a))"
| "at_eof (_, a) = Inr (t_rows (end_line (end_field a)))"

definition tokenize :: "string list \<Rightarrow> string list list res" where
  "tokenize lines =
     at_eof (foldl tokenizer_step (START_RECORD, \<lparr>t_field = [], t_row = [], t_rows = []\<rparr>)
               (concat (map (\<lambda>l. l @ [LF]) lines)))"

definition pad :: "nat \<Rightarrow> string list \<Rightarrow> string list" where
  "pad n r = r @ replicate (n - length r) []"

text \<open>The strings pandas reads as a missing value; the empty field is one of them.\<close>

definition na_values :: "string list" where
  "na_values = ['''', ''#N/A'', ''#N/A N/A'', ''#NA'', ''-1.#IND'', ''-1.#QNAN'', ''-NaN'',
     ''-nan'', ''1.#IND'', ''1.#QNAN'', ''<NA>'', ''N/A'', ''NA'', ''NULL'', ''NaN'', ''None'',
     ''n/a'', ''nan'', ''null'']"

text \<open>
  A cell of a data frame. A float64 cell is kept as the decimal it was read from,
  \<open>CFloat m d\<close> for \<open>m / 10^d\<close>, or is an infinity (\<open>CInf True\<close> the negative
  one); the rounding of a decimal to the nearest binary float is not modelled.
\<close>

datatype cell = CNaN | CInt int | CFloat int nat | CInf bool | CBool bool | CStr string

text \<open>
  The number parsers skip blanks, tabs and line ends before and after the number, take
  one sign, and want at least one digit.
\<close>

definition is_space :: "char \<Rightarrow> bool" where
  "is_space c = (c \<in> set [CHR '' '', CHR 0x09, CHR 0x0A, CHR 0x0B, CHR 0x0C, CHR 0x0D])"

definition trim :: "string \<Rightarrow> string" where
  "trim s = rev (dropWhile is_space (rev (dropWhile is_space s)))"

definition is_digit :: "char \<Rightarrow> bool" where
  "is_digit c = (c \<in> set ''0123456789'')"

definition digit_val :: "char \<Rightarrow> int" where
  "digit_val c = int (of_char c) - 48"

definition digits_val :: "string \<Rightarrow> int" where
  "digits_val s = foldl (\<lambda>a c. 10 * a + digit_val c) 0 s"

definition unsigned :: "string \<Rightarrow> string" where
  "unsigned s = (if take 1 s = ''-'' \<or> take 1 s = ''+'' then drop 1 s else s)"

definition sign_of :: "string \<Rightarrow> int" where
  "sign_of s = (if take 1 s = ''-'' then - 1 else 1)"

definition is_int_literal :: "string \<Rightarrow> bool" where
  "is_int_literal s = (unsigned (trim s) \<noteq> [] \<and> list_all is_digit (unsigned (trim s)))"

definition int_of_literal :: "string \<Rightarrow> int" where
  "int_of_literal s = sign_of (trim s) * digits_val (unsigned (trim s))"

definition in_int64 :: "int \<Rightarrow> bool" where
  "in_int64 i = (- (2 ^ 63) \<le> i \<and> i < 2 ^ 63)"

text \<open>
  A column of integers that does not fit int64 is read as uint64 when no field has a
  minus sign and every field is below \<open>2^64\<close>.
\<close>

definition in_uint64 :: "string \<Rightarrow> bool" where
  "in_uint64 s = (take 1 (trim s) \<noteq> ''-'' \<and> int_of_literal s < 2 ^ 64)"

text \<open>
  A float is digits with at most one decimal point, then perhaps an exponent: the
  letter e, a sign and at least one digit. \<open>int_digits\<close> and \<open>frac_digits\<close> are
  the digits before and behind the point, \<open>exponent\<close> is the value of the exponent
  part, \<open>None\<close> when what follows the digits is not one.
\<close>

definition int_digits :: "string \<Rightarrow> string" where
  "int_digits s = takeWhile is_digit (unsigned (trim s))"

definition after_int :: "string \<Rightarrow> string" where
  "after_int s = dropWhile is_digit (unsigned (trim s))"

definition frac_digits :: "string \<Rightarrow> string" where
  "frac_digits s = (if take 1 (after_int s) = ''.'' then takeWhile is_digit (drop 1 (after_int s)) else [])"

definition after_frac :: "string \<Rightarrow> string" where
  "after_frac s = (if take 1 (after_int s) = ''.'' then dropWhile is_digit (drop 1 (after_int s)) else after_int s)"

definition exponent :: "string \<Rightarrow> int option" where
  "exponent s =
     (if after_frac s = [] then Some 0
      else if (take 1 (after_frac s) = ''e'' \<or> take 1 (after_frac s) = ''E'')
              \<and> unsigned (drop 1 (after_frac s)) \<noteq> []
              \<and> list_all is_digit (unsigned (drop 1 (after_frac s)))
           then Some (sign_of (drop 1 (after_frac s)) * digits_val (unsigned (drop 1 (after_frac s))))
      else None)"

definition mantissa :: "string \<Rightarrow> int" where
  "mantissa s = sign_of (trim s) * digits_val (int_digits s @ frac_digits s)"

text \<open>The power of ten the digits are scaled by.\<close>

definition scale :: "string \<Rightarrow> int" where
  "scale s = the (exponent s) - int (length (frac_digits s))"

text \<open>
  A number too large for a double is not read as a float; the field is text then.
  (A number too small for one is kept as the decimal it is written as.)
\<close>

definition is_decimal_literal :: "string \<Rightarrow> bool" where
  "is_decimal_literal s =
     (int_digits s @ frac_digits s \<noteq> [] \<and> exponent s \<noteq> None
      \<and> (scale s < 0 \<or> \<bar>mantissa s\<bar> * 10 ^ nat (scale s) < 2 ^ 1024)
      \<and> (0 \<le> scale s \<or> \<bar>mantissa s\<bar> < 2 ^ 1024 * 10 ^ nat (- scale s)))"

definition lower :: "string \<Rightarrow> string" where
  "lower s =
     map (\<lambda>c. case map_of (zip ''ABCDEFGHIJKLMNOPQRSTUVWXYZ'' ''abcdefghijklmnopqrstuvwxyz'') c of
                 None \<Rightarrow> c | Some l \<Rightarrow> l) s"

definition is_inf_literal :: "string \<Rightarrow> bool" where
  "is_inf_literal s =
     (lower s \<in> set [''inf'', ''+inf'', ''-inf'', ''infinity'', ''+infinity'', ''-infinity''])"

definition is_float_literal :: "string \<Rightarrow> bool" where
  "is_float_literal s = (is_decimal_literal s \<or> is_inf_literal s)"

definition float_of_literal :: "string \<Rightarrow> cell" where
  "float_of_literal s =
     (if is_decimal_literal s
      then (if 0 \<le> scale s then CFloat (mantissa s * 10 ^ nat (scale s)) 0
            else CFloat (mantissa s) (nat (- scale s)))
      else CInf (take 1 s = ''-''))"

definition is_bool_literal :: "string \<Rightarrow> bool" where
  "is_bool_literal s = (s \<in> set [''True'', ''TRUE'', ''true'', ''False'', ''FALSE'', ''false''])"

definition bool_of_literal :: "string \<Rightarrow> bool" where
  "bool_of_literal s = (s \<in> set [''True'', ''TRUE'', ''true''])"

definition or_nan :: "(string \<Rightarrow> cell) \<Rightarrow> string \<Rightarrow> cell" where
  "or_nan conv f = (if f \<in> set na_values then CNaN else conv f)"

text \<open>
  The type of a column is inferred from all its fields, trying int64, float64, bool
  and object in this order; a missing value fits every type but the integers.
  Integers with a missing value among them become floats. Integers that do not fit
  int64 are uint64 if they can be, and stay text otherwise.
\<close>

definition convert_column :: "string list \<Rightarrow> cell list" where
  "convert_column col =
     (let vals = filter (\<lambda>f. f \<notin> set na_values) col
      in if list_all is_int_literal vals then
           (if list_all (\<lambda>f. in_int64 (int_of_literal f)) vals then
              (if vals = col then map (\<lambda>f. CInt (int_of_literal f)) col
               else map (or_nan (\<lambda>f. CFloat (int_of_literal f) 0)) col)
            else if vals = col \<and> list_all in_uint64 col then map (\<lambda>f. CInt (int_of_literal f)) col
            else map (or_nan CStr) col)
         else if list_all is_float_literal vals then map (or_nan float_of_literal) col
         else if list_all is_bool_literal vals then map (or_nan (\<lambda>f. CBool (bool_of_literal f))) col
         else map (or_nan CStr) col)"

record dataframe =
  df_columns :: "scalar list"
  df_index :: "cell list list"
  df_rows :: "cell list list"

text \<open>
  The first row fixes the width of the table: the parser expects the larger of its
  number of fields and the number of names. A shorter row is filled up with empty
  fields; a later row with more fields than expected is an error. When the table is
  wider than the names, the names label the last columns and the columns before them
  become the row index. \<open>table_width\<close> is the number of fields the parser expects
  on every row and \<open>leading_cols\<close> the number of columns that come before the named
  ones. A file without a row gives a frame without rows (with no names either, there
  is no column to parse: EmptyDataError).
\<close>

definition table_width :: "string list \<Rightarrow> scalar list \<Rightarrow> nat" where
  "table_width first names = max (length first) (length names)"

definition leading_cols :: "string list \<Rightarrow> scalar list \<Rightarrow> nat" where
  "leading_cols first names = table_width first names - length names"

text \<open>The cells of column \<open>c\<close> of the rows, each row filled up to the width \<open>n\<close>.\<close>

definition column_cells :: "nat \<Rightarrow> string list list \<Rightarrow> nat \<Rightarrow> cell list" where
  "column_cells n rows c = convert_column (map (\<lambda>r. pad n r ! c) rows)"

definition parse_table :: "string list \<Rightarrow> scalar list \<Rightarrow> dataframe res" where
  "parse_table lines names =
     (case tokenize lines of
        Inl e \<Rightarrow> Inl e
      | Inr [] \<Rightarrow> if names = [] then Inl EmptyDataError
                  else Inr \<lparr>df_columns = names, df_index = [], df_rows = []\<rparr>
      | Inr (first # rest) \<Rightarrow>
          if list_ex (\<lambda>r. table_width first names < length r) rest then Inl ParserError
          else (let cols = map (column_cells (table_width first names) (first # rest))
                               [0..<table_width first names];
                    cells = map (\<lambda>i. map (\<lambda>c. c ! i) cols) [0..<length (first # rest)]
                in Inr \<lparr>df_columns = names,
                        df_index = map (take (leading_cols first names)) cells,
                        df_rows = map (drop (leading_cols first names)) cells\<rparr>))"

definition pd_read_csv :: "string \<Rightarrow> scalar list \<Rightarrow> world \<Rightarrow> dataframe res" where
  "pd_read_csv file_path names w =
     (if \<not> distinct names then Inl DuplicateNames
      else (case open_read file_path w of
              Inl e \<Rightarrow> Inl e
            | Inr lines \<Rightarrow> parse_table lines names))"

definition read_csv :: "string \<Rightarrow> scalar list \<Rightarrow> world \<Rightarrow> dataframe res \<times> world" where
  "read_csv file_path column_names w =
     (let w1 = did (ReadCsv file_path) w
      in case pd_read_csv file_path column_names w1 of
           Inl e \<Rightarrow>
             (if e = ParserError
              then (Inl e, say ERROR (''Error parsing csv file from '' @ file_path) w1)
              else (Inl e, say CRITICAL
                      (''An unhandled exception occurred while reading file from '' @ file_path) w1))
         | Inr df \<Rightarrow> (Inr df,
             say INFO (''Successfully read csv file from '' @ file_path @ '' to DataFrame'') w1))"

subsection \<open>pandas: DataFrame.to_json\<close>

text \<open>
  \<open>df.to_json(path, orient='records', lines=True)\<close> writes one JSON object per row:
  the column labels in order, each with the cell of the row. The row index is not
  written. A missing value and an infinity are \<open>null\<close>; a float is written with its
  decimal point (always in positional notation here, and with all its digits);
  a quote, a backslash and a slash in a string are escaped (text beyond printable
  ASCII is not modelled).
\<close>

function str_nat :: "nat \<Rightarrow> string" where
  "str_nat n =
     (if n < 10 then [''0123456789'' ! n]
      else str_nat (n div 10) @ [''0123456789'' ! (n mod 10)])"
  by pat_completeness auto
termination
  by (relation "measure id") auto

definition str_int :: "int \<Rightarrow> string" where
  "str_int i = (if i < 0 then ''-'' @ str_nat (nat (- i)) else str_nat (nat i))"

fun strip_zeros :: "int \<Rightarrow> nat \<Rightarrow> int \<times> nat" where
  "strip_zeros m 0 = (m, 0)"
| "strip_zeros m (Suc d) = (if m mod 10 = 0 then strip_zeros (m div 10) d else (m, Suc d))"

definition zero_fill :: "nat \<Rightarrow> string \<Rightarrow> string" where
  "zero_fill d s = replicate (d - length s) (CHR ''0'') @ s"

definition str_float :: "int \<Rightarrow> nat \<Rightarrow> string" where
  "str_float m d =
     (case strip_zeros m d of
        (m', d') \<Rightarrow>
          (if m' < 0 then ''-'' else []) @ str_nat (nat \<bar>m'\<bar> div 10 ^ d') @ ''.''
          @ (if d' = 0 then ''0'' else zero_fill d' (str_nat (nat \<bar>m'\<bar> mod 10 ^ d'))))"

definition escape :: "char \<Rightarrow> string" where
  "escape c = (if c = CHR 0x22 \<or> c = CHR 0x5C \<or> c = CHR ''/'' then [CHR 0x5C, c] else [c])"

definition quoted :: "string \<Rightarrow> string" where
  "quoted s = [CHR 0x22] @ concat (map escape s) @ [CHR 0x22]"

fun cell_json :: "cell \<Rightarrow> string" where
  "cell_json CNaN = ''null''"
| "cell_json (CInt i) = str_int i"
| "cell_json (CFloat m d) = str_float m d"
| "cell_json (CInf _) = ''null''"
| "cell_json (CBool b) = (if b then ''true'' else ''false'')"
| "cell_json (CStr s) = quoted s"

text \<open>A label that is not a string is written as the string of its JSON text.\<close>

fun label_json :: "scalar \<Rightarrow> string" where
  "label_json (SStr s) = quoted s"
| "label_json (SInt i) = quoted (str_int i)"
| "label_json (SBool b) = quoted (if b then ''true'' else ''false'')"
| "label_json SNull = quoted ''null''"

fun join_with :: "string \<Rightarrow> string list \<Rightarrow> string" where
  "join_with s [] = []"
| "join_with s [x] = x"
| "join_with s (x # y # ys) = x @ s @ join_with s (y # ys)"

definition json_line :: "scalar list \<Rightarrow> cell list \<Rightarrow> string" where
  "json_line labels row =
     ''{'' @ join_with '','' (map (\<lambda>(k, v). label_json k @ '':'' @ cell_json v) (zip labels row)) @ ''}''"

definition df_to_json :: "dataframe \<Rightarrow> string \<Rightarrow> world \<Rightarrow> unit res \<times> world" where
  "df_to_json df path w =
     open_write path (map (json_line (df_columns df)) (df_rows df)) (did (WriteJson path) w)"

subsection \<open>to_json\<close>

text \<open>Both handlers of \<open>to_json\<close> log and raise again; they differ in the level.\<close>

definition to_json_handler :: "exc \<Rightarrow> world \<Rightarrow> world" where
  "to_json_handler e w =
     (if is_IOError e then say ERROR ''Error converting DataFrame to JSON'' w
      else say CRITICAL ''An unhandled exception occurred while parsing DataFrame to JSON'' w)"

definition to_json :: "dataframe \<Rightarrow> string \<Rightarrow> string \<Rightarrow> string \<Rightarrow> world \<Rightarrow> bool res \<times> world" where
  "to_json df tgt_base_dir csv_file_path ds_name w =
     on_error
       (let json_dir = os_path_join tgt_base_dir ds_name
        in andthen (os_makedirs json_dir (did (Makedirs json_dir) w))
             (\<lambda>_ w1.
                let json_file_name = fst (os_path_splitext (os_path_basename csv_file_path)) @ ''.json'';
                    w2 = say INFO (''Successfully created directory for json file: '' @ json_dir) w1
                in andthen (df_to_json df json_file_name w2)
                     (\<lambda>_ w3. (Inr True,
                        say INFO (''Successfully converted DataFrame to JSON at '' @ json_file_name) w3))))
       to_json_handler"

subsection \<open>convert_file\<close>

text \<open>The body of the loop over the partition files.\<close>

definition convert_partition :: "scalar list \<Rightarrow> string \<Rightarrow> string \<Rightarrow> string \<Rightarrow> world \<Rightarrow> unit res \<times> world" where
  "convert_partition col_name tgt_base_dir ds_name csv_file w =
     andthen (read_csv csv_file col_name w)
       (\<lambda>df w1. andthen (to_json df tgt_base_dir csv_file ds_name w1)
          (\<lambda>ok w2. (Inr (),
             if ok then say INFO (''Successfully processed '' @ ds_name @ '' at '' @ csv_file @ '' to JSON'') w2
             else say ERROR (''Error processing '' @ ds_name @ '' at '' @ csv_file @ '' to JSON'') w2)))"

definition convert_file :: "string \<Rightarrow> string \<Rightarrow> string \<Rightarrow> world \<Rightarrow> unit res \<times> world" where
  "convert_file src_base_dir tgt_base_dir ds_name w =
     on_error
       (andthen (read_schema src_base_dir w)
          (\<lambda>schema w1. andthen (get_column_names schema ds_name ''column_position'' w1)
             (\<lambda>col_name w2.
                for_each (convert_partition col_name tgt_base_dir ds_name)
                  (process_files src_base_dir ds_name) w2)))
       (\<lambda>e. say_root CRITICAL ''An unhandled exception occurred'')"

subsection \<open>main\<close>

text \<open>
  The argument \<open>ds_name\<close> is \<open>None\<close>, a string or a list of strings. An empty
  string and an empty list are false like \<open>None\<close>. Iterating a string gives its
  characters, each a string of length one.
\<close>

datatype ds_arg = NoArg | StrArg string | ListArg "string list"

fun falsy :: "ds_arg \<Rightarrow> bool" where
  "falsy NoArg = True"
| "falsy (StrArg s) = (s = [])"
| "falsy (ListArg l) = (l = [])"

fun iterate :: "ds_arg \<Rightarrow> string list" where
  "iterate NoArg = []"
| "iterate (StrArg s) = map (\<lambda>c. [c]) s"
| "iterate (ListArg l) = l"

definition unset :: "string option \<Rightarrow> bool" where
  "unset v = (v = None \<or> v = Some [])"

text \<open>The discovery of the datasets: one name for every path the pattern matches.\<close>

definition discover :: "string \<Rightarrow> world \<Rightarrow> string list res \<times> world" where
  "discover src_base_dir w =
     (let w1 = say WARNING ''No dataset name provided as runtime argument'' w;
          ds_names_dir = glob_all src_base_dir w1;
          w2 = did (Glob (src_base_dir @ ''/*/part-*'')) w1
      in if length ds_names_dir = 0
         then (Inl (FileNotFoundError (src_base_dir @ ''/*/part-*'')), w2)
         else (Inr (map (\<lambda>ds_dir. os_path_basename (fst (os_path_split ds_dir))) ds_names_dir), w2))"

fun convert_all :: "string \<Rightarrow> string \<Rightarrow> string list \<Rightarrow> world \<Rightarrow> unit res \<times> world" where
  "convert_all src_base_dir tgt_base_dir [] w = (Inr (), w)"
| "convert_all src_base_dir tgt_base_dir (ds_name # ds_names) w =
     andthen (convert_file src_base_dir tgt_base_dir ds_name w)
       (\<lambda>_. convert_all src_base_dir tgt_base_dir ds_names)"

definition main :: "ds_arg \<Rightarrow> world \<Rightarrow> unit res \<times> world" where
  "main ds_name w =
     (if unset (environ w ''TGT_BASE_DIR'') \<or> unset (environ w ''SRC_BASE_DIR'')
      then (Inl (NameError ''missing source or target base directory''),
            say CRITICAL ''Missing Environment Variables'' w)
      else (let src_base_dir = the (environ w ''SRC_BASE_DIR'');
                tgt_base_dir = the (environ w ''TGT_BASE_DIR'')
            in on_error
                 (andthen
                    (if falsy ds_name then discover src_base_dir w
                     else (Inr (iterate ds_name),
                           say INFO ''File converter run with runtime arguments'' w))
                    (convert_all src_base_dir tgt_base_dir))
                 (\<lambda>e. say CRITICAL ''An unhandled exception occurred'')))"

subsection \<open>Scenarios\<close>

text \<open>
  The end-to-end scenario of the specification: one dataset \<open>sales\<close> with one
  partition of two rows, and a schema document that gives it three columns. The
  process runs in \<open>/work\<close>.
\<close>

definition sales_columns :: "column list" where
  "sales_columns =
     [[''column_name'' \<mapsto> SStr ''id'', ''column_position'' \<mapsto> SInt 0],
      [''column_name'' \<mapsto> SStr ''name'', ''column_position'' \<mapsto> SInt 1],
      [''column_name'' \<mapsto> SStr ''price'', ''column_position'' \<mapsto> SInt 2]]"

definition sales_schema :: schema where
  "sales_schema = [''sales'' \<mapsto> sales_columns]"

definition sales_doc :: "string list" where
  "sales_doc =
     [''{\"sales\": [{\"column_name\": \"id\", \"column_position\": 0},'',
      '' {\"column_name\": \"name\", \"column_position\": 1},'',
      '' {\"column_name\": \"price\", \"column_position\": 2}]}'']"

definition sales_world :: world where
  "sales_world =
     \<lparr>files = [(''/data/src/schemas.json'', sales_doc),
               (''/data/src/sales/part-001'', [''1,Widget,9.99'', ''2,Gadget,19.99''])],
      dirs = [''/data/src'', ''/data/src/sales'', ''/data/tgt'', ''/work''],
      readonly = [],
      cwd = ''/work'',
      environ = [''SRC_BASE_DIR'' \<mapsto> ''/data/src'', ''TGT_BASE_DIR'' \<mapsto> ''/data/tgt''],
      json_load = (\<lambda>doc. if doc = sales_doc then Some sales_schema else None),
      log = [],
      io = []\<rparr>"

definition sales_frame :: dataframe where
  "sales_frame =
     \<lparr>df_columns = [SStr ''id'', SStr ''name'', SStr ''price''],
      df_index = [[], []],
      df_rows = [[CInt 1, CStr ''Widget'', CFloat 999 2], [CInt 2, CStr ''Gadget'', CFloat 1999 2]]\<rparr>"

text \<open>The integer under a key of a column entry, when there is one.\<close>

definition key_int :: "string \<Rightarrow> column \<Rightarrow> int option" where
  "key_int key c = (case c key of Some (SInt i) \<Rightarrow> Some i | _ \<Rightarrow> None)"

text \<open>A dataset whose schema is out of order and has two columns at one position.\<close>

definition orders_columns :: "column list" where
  "orders_columns =
     [[''column_name'' \<mapsto> SStr ''total'', ''column_position'' \<mapsto> SInt 2],
      [''column_name'' \<mapsto> SStr ''id'', ''column_position'' \<mapsto> SInt 1],
      [''column_name'' \<mapsto> SStr ''tax'', ''column_position'' \<mapsto> SInt 2]]"

text \<open>
  A shop with two datasets: \<open>sales\<close> has two partition files and \<open>users\<close> one.
  In \<open>locked_world\<close> the process may not write \<open>/work/part-001.json\<close>; in
  \<open>no_schema_world\<close> the schema document is missing.
\<close>

definition users_columns :: "column list" where
  "users_columns =
     [[''column_name'' \<mapsto> SStr ''uid'', ''column_position'' \<mapsto> SInt 1],
      [''column_name'' \<mapsto> SStr ''email'', ''column_position'' \<mapsto> SInt 2]]"

definition shop_schema :: schema where
  "shop_schema = [''sales'' \<mapsto> sales_columns, ''users'' \<mapsto> users_columns]"

definition shop_doc :: "string list" where
  "shop_doc = [''{\"sales\": [...], \"users\": [...]}'']"

definition shop_world :: world where
  "shop_world =
     \<lparr>files = [(''/data/src/schemas.json'', shop_doc),
               (''/data/src/sales/part-001'', [''1,Widget,9.99'', ''2,Gadget,19.99'']),
               (''/data/src/sales/part-002'', [''3,Gizmo,5.00'']),
               (''/data/src/users/part-001'', [''7,ann@example.org''])],
      dirs = [''/data/src'', ''/data/src/sales'', ''/data/src/users'', ''/data/tgt'', ''/work''],
      readonly = [],
      cwd = ''/work'',
      environ = [''SRC_BASE_DIR'' \<mapsto> ''/data/src'', ''TGT_BASE_DIR'' \<mapsto> ''/data/tgt''],
      json_load = (\<lambda>doc. if doc = shop_doc then Some shop_schema else None),
      log = [],
      io = []\<rparr>"

definition locked_world :: world where
  "locked_world = shop_world\<lparr>readonly := [''/work/part-001.json'']\<rparr>"

definition no_schema_world :: world where
  "no_schema_world =
     sales_world\<lparr>files := [(''/data/src/sales/part-001'', [''1,Widget,9.99'', ''2,Gadget,19.99''])]\<rparr>"

text \<open>The operations of the trace that open the schema document, and those that work on a partition.\<close>

fun is_OpenSchema :: "io_op \<Rightarrow> bool" where
  "is_OpenSchema (OpenSchema _) = True"
| "is_OpenSchema _ = False"

definition schema_reads :: "world \<Rightarrow> nat" where
  "schema_reads w = length (filter is_OpenSchema (io w))"

fun on_partition :: "io_op \<Rightarrow> bool" where
  "on_partition (ReadCsv _) = True"
| "on_partition (Makedirs _) = True"
| "on_partition (WriteJson _) = True"
| "on_partition _ = False"

text \<open>
  \<open>quiet w w'\<close>: the trace of \<open>w'\<close> is the trace of \<open>w\<close> with operations added,
  none of which opens the schema document.
\<close>

definition quiet :: "world \<Rightarrow> world \<Rightarrow> bool" where
  "quiet w w' =
     (take (length (io w)) (io w') = io w
      \<and> filter is_OpenSchema (drop (length (io w)) (io w')) = [])"






text \<open>The shop when the directory of \<open>sales\<close> under the target root cannot be created.\<close>

definition blocked_world :: world where
  "blocked_world = shop_world\<lparr>readonly := [''/data/tgt/sales'']\<rparr>"

text \<open>
  The glob operations of the trace. Every pass of the loop of \<open>main\<close> that gets as
  far as the partition files of its dataset leaves one, with the pattern of the
  dataset.
\<close>

fun is_Glob :: "io_op \<Rightarrow> bool" where
  "is_Glob (Glob _) = True"
| "is_Glob _ = False"

definition globs :: "world \<Rightarrow> io_op list" where
  "globs w = filter is_Glob (io w)"

text \<open>Two datasets with names of one character, \<open>a\<close> and \<open>b\<close>, of one partition each.\<close>

definition letter_columns :: "column list" where
  "letter_columns =
     [[''column_name'' \<mapsto> SStr ''k'', ''column_position'' \<mapsto> SInt 1],
      [''column_name'' \<mapsto> SStr ''v'', ''column_position'' \<mapsto> SInt 2]]"

definition letters_schema :: schema where
  "letters_schema = [''a'' \<mapsto> letter_columns, ''b'' \<mapsto> letter_columns]"

definition letters_doc :: "string list" where
  "letters_doc =
     [''{\"a\": [{\"column_name\": \"k\", \"column_position\": 1}, {\"column_name\": \"v\", \"column_position\": 2}],'',
      '' \"b\": [{\"column_name\": \"k\", \"column_position\": 1}, {\"column_name\": \"v\", \"column_position\": 2}]}'']"

definition letters_world :: world where
  "letters_world =
     \<lparr>files = [(''/data/src/schemas.json'', letters_doc),
               (''/data/src/a/part-001'', [''1,x'']),
               (''/data/src/b/part-002'', [''2,y''])],
      dirs = [''/data/src'', ''/data/src/a'', ''/data/src/b'', ''/data/tgt'', ''/work''],
      readonly = [],
      cwd = ''/work'',
      environ = [''SRC_BASE_DIR'' \<mapsto> ''/data/src'', ''TGT_BASE_DIR'' \<mapsto> ''/data/tgt''],
      json_load = (\<lambda>doc. if doc = letters_doc then Some letters_schema else None),
      log = [],
      io = []\<rparr>"

section \<open>Properties\<close>

subsection \<open>Where to_json writes\<close>

text \<open>
  C1. The claim: \<open>to_json\<close> writes its JSON Lines output at
  \<open>targetRoot/datasetName/<base>.json\<close>, after creating that directory.
  The code creates the directory \<open>targetRoot/datasetName\<close> and then hands pandas
  the bare file name \<open>json_file_name\<close>, without \<open>json_dir\<close>: the file is
  written in the working directory of the process. For the frame of the scenario,
  target root \<open>/data/tgt\<close>, dataset \<open>sales\<close> and partition
  \<open>/data/src/sales/part-001\<close>, run in \<open>/work\<close>: the call returns \<open>True\<close>, the
  directory \<open>/data/tgt/sales\<close> exists afterwards, no file \<open>/data/tgt/sales/part-001.json\<close>
  does, and the two lines are in \<open>/work/part-001.json\<close>.
\<close>

theorem to_json_writes_in_working_directory:
  "fst (to_json sales_frame ''/data/tgt'' ''/data/src/sales/part-001'' ''sales'' sales_world) = Inr True
   \<and> ''/data/tgt/sales'' \<in> set (dirs (snd (to_json sales_frame ''/data/tgt'' ''/data/src/sales/part-001'' ''sales'' sales_world)))
   \<and> lookup_file (snd (to_json sales_frame ''/data/tgt'' ''/data/src/sales/part-001'' ''sales'' sales_world))
        ''/data/tgt/sales/part-001.json'' = None
   \<and> lookup_file (snd (to_json sales_frame ''/data/tgt'' ''/data/src/sales/part-001'' ''sales'' sales_world))
        ''/work/part-001.json''
       = Some [''{\"id\":1,\"name\":\"Widget\",\"price\":9.99}'', ''{\"id\":2,\"name\":\"Gadget\",\"price\":19.99}'']"
  by code_simp

subsection \<open>The end-to-end scenario\<close>

text \<open>
  C2, as claimed: with no dataset argument the run over the scenario produces
  \<open><targetRoot>/sales/part-001.json\<close> with the two lines
  \<open>{"id":"1","name":"Widget","price":"9.99"}\<close> and
  \<open>{"id":"2","name":"Gadget","price":"19.99"}\<close>. It does not: the run ends with no
  file at that path at all, and the lines it writes hold numbers.
\<close>

theorem scenario_output_counterexample:
  "lookup_file (snd (main NoArg sales_world)) ''/data/tgt/sales/part-001.json''
     \<noteq> Some [''{\"id\":\"1\",\"name\":\"Widget\",\"price\":\"9.99\"}'',
              ''{\"id\":\"2\",\"name\":\"Gadget\",\"price\":\"19.99\"}'']
   \<and> [''{\"id\":\"1\",\"name\":\"Widget\",\"price\":\"9.99\"}'',
       ''{\"id\":\"2\",\"name\":\"Gadget\",\"price\":\"19.99\"}'']
     \<notin> set (map snd (files (snd (main NoArg sales_world))))"
  by code_simp

text \<open>
  C2, amended: with no dataset argument the run over the scenario discovers the
  dataset \<open>sales\<close>, resolves the column sequence \<open>["id","name","price"]\<close>, ends
  without an error and writes exactly one file named \<open>part-001.json\<close>, whose two
  lines are \<open>{"id":1,"name":"Widget","price":9.99}\<close> and
  \<open>{"id":2,"name":"Gadget","price":19.99}\<close>: pandas infers the type of each
  column, so \<open>id\<close> and \<open>price\<close> are written as JSON numbers and only \<open>name\<close> as
  a string. (In which directory the file is written is the subject of C1.)
\<close>

theorem scenario_output:
  "fst (discover ''/data/src'' sales_world) = Inr [''sales'']
   \<and> fst (get_column_names sales_schema ''sales'' ''column_position'' sales_world)
       = Inr [SStr ''id'', SStr ''name'', SStr ''price'']
   \<and> fst (main NoArg sales_world) = Inr ()
   \<and> map snd (filter (\<lambda>f. os_path_basename (fst f) = ''part-001.json'') (files (snd (main NoArg sales_world))))
       = [[''{\"id\":1,\"name\":\"Widget\",\"price\":9.99}'', ''{\"id\":2,\"name\":\"Gadget\",\"price\":19.99}'']]"
  by code_simp

subsection \<open>What logging and tracing leave alone\<close>

declare for_each.simps [simp del] exhaust.simps [simp del]

lemma say_fields [simp]:
  "files (say l m w) = files w" "dirs (say l m w) = dirs w" "readonly (say l m w) = readonly w"
  "cwd (say l m w) = cwd w" "environ (say l m w) = environ w" "json_load (say l m w) = json_load w"
  "io (say l m w) = io w" "log (say l m w) = log w @ [(App, l, m)]"
  by (simp_all add: say_def)

lemma say_root_fields [simp]:
  "files (say_root l m w) = files w" "dirs (say_root l m w) = dirs w"
  "readonly (say_root l m w) = readonly w" "cwd (say_root l m w) = cwd w"
  "environ (say_root l m w) = environ w" "json_load (say_root l m w) = json_load w"
  "io (say_root l m w) = io w" "log (say_root l m w) = log w @ [(Root, l, m)]"
  by (simp_all add: say_root_def)

lemma did_fields [simp]:
  "files (did e w) = files w" "dirs (did e w) = dirs w" "readonly (did e w) = readonly w"
  "cwd (did e w) = cwd w" "environ (did e w) = environ w" "json_load (did e w) = json_load w"
  "io (did e w) = io w @ [e]" "log (did e w) = log w"
  by (simp_all add: did_def)

lemma resolve_frame [simp]:
  "resolve (say l m w) p = resolve w p" "resolve (say_root l m w) p = resolve w p"
  "resolve (did e w) p = resolve w p"
  by (simp_all add: resolve_def)

lemma lookup_file_frame [simp]:
  "lookup_file (say l m w) p = lookup_file w p" "lookup_file (say_root l m w) p = lookup_file w p"
  "lookup_file (did e w) p = lookup_file w p"
  by (simp_all add: lookup_file_def)

lemma glob_frame [simp]:
  "glob_under ok d (say l m w) = glob_under ok d w" "glob_under ok d (did e w) = glob_under ok d w"
  by (simp_all add: glob_under_def)

subsection \<open>Column resolution\<close>

lemma key_int_Some: "key_int key c = Some i \<longleftrightarrow> c key = Some (SInt i)"
  by (auto simp: key_int_def split: option.splits scalar.splits)

lemma py_sorted_ints:
  assumes "list_all (\<lambda>c. key_int key c \<noteq> None) cols"
  shows "\<exists>cs. py_sorted (\<lambda>c. the (c key)) cols = Inr cs \<and> length cs = length cols \<and> set cs = set cols
          \<and> sorted (map (\<lambda>c. the (key_int key c)) cs)
          \<and> (\<forall>k. filter (\<lambda>c. the (key_int key c) = k) cs = filter (\<lambda>c. the (key_int key c) = k) cols)"
proof -
  let ?f = "\<lambda>c. num_of (the (c key))"
  let ?p = "\<lambda>c. the (key_int key c)"
  have eq: "?f c = ?p c" if "c \<in> set cols" for c
  proof -
    from assms that obtain i where i: "key_int key c = Some i"
      by (auto simp: list_all_iff)
    then have "c key = Some (SInt i)" by (simp add: key_int_Some)
    with i show ?thesis by simp
  qed
  have num: "list_all (\<lambda>c. is_num (the (c key))) cols"
    using assms by (auto simp: list_all_iff key_int_Some)
  show ?thesis
  proof (cases "length cols \<le> 1")
    case True
    then have "cols = [] \<or> (\<exists>c. cols = [c])"
      by (cases cols) (auto simp: length_Suc_conv)
    then show ?thesis by (auto simp: py_sorted_def)
  next
    case False
    let ?cs = "sort_key ?f cols"
    have m: "map ?p ?cs = map ?f ?cs"
      by (rule map_cong) (auto simp: eq)
    have "sorted (map ?f ?cs)" by (rule sorted_sort_key)
    then have s: "sorted (map ?p ?cs)" by (simp only: m)
    have st: "filter (\<lambda>c. ?p c = k) ?cs = filter (\<lambda>c. ?p c = k) cols" for k
    proof -
      have "filter (\<lambda>c. ?p c = k) ?cs = filter (\<lambda>c. ?f c = k) ?cs"
        by (rule filter_cong) (auto simp: eq)
      also have "\<dots> = filter (\<lambda>c. ?f c = k) cols" by (rule sort_key_stable)
      also have "\<dots> = filter (\<lambda>c. ?p c = k) cols"
        by (rule filter_cong) (auto simp: eq)
      finally show ?thesis .
    qed
    from False num have "py_sorted (\<lambda>c. the (c key)) cols = Inr ?cs"
      by (simp add: py_sorted_def)
    with s st show ?thesis by auto
  qed
qed

text \<open>
  C8. For every schema and every dataset name present in it whose entries all carry
  the sort key, with an integer under it, and a name, \<open>get_column_names\<close> returns
  a sequence of names: as many as the dataset has descriptors, taken from the
  descriptors in an order that is non-decreasing in position, and in which the
  descriptors of any one position keep the order they have in the schema (the sort is
  stable).
\<close>

theorem get_column_names_sorted_stable:
  assumes "schema tbl = Some cols"
    and "list_all (\<lambda>c. key_int key c \<noteq> None \<and> c ''column_name'' \<noteq> None) cols"
  shows "\<exists>cs. fst (get_column_names schema tbl key w) = Inr (map (\<lambda>c. the (c ''column_name'')) cs)
           \<and> length (map (\<lambda>c. the (c ''column_name'')) cs) = length cols
           \<and> sorted (map (\<lambda>c. the (key_int key c)) cs)
           \<and> (\<forall>k. filter (\<lambda>c. the (key_int key c) = k) cs = filter (\<lambda>c. the (key_int key c) = k) cols)"
proof -
  from assms(2) have a: "list_all (\<lambda>c. key_int key c \<noteq> None) cols"
    by (auto simp: list_all_iff)
  from py_sorted_ints [OF a] obtain cs where cs:
    "py_sorted (\<lambda>c. the (c key)) cols = Inr cs" "length cs = length cols" "set cs = set cols"
    "sorted (map (\<lambda>c. the (key_int key c)) cs)"
    "\<forall>k. filter (\<lambda>c. the (key_int key c) = k) cs = filter (\<lambda>c. the (key_int key c) = k) cols"
    by blast
  have k: "\<not> list_ex (\<lambda>c. c key = None) cols"
    using a by (auto simp: list_all_iff list_ex_iff key_int_def split: option.splits)
  have n: "\<not> list_ex (\<lambda>c. c ''column_name'' = None) cs"
    using assms(2) cs(3) by (auto simp: list_all_iff list_ex_iff)
  have "fst (get_column_names schema tbl key w) = Inr (map (\<lambda>c. the (c ''column_name'')) cs)"
    using assms(1) cs(1) k n by (simp add: get_column_names_def)
  with cs show ?thesis by auto
qed

text \<open>
  The dataset \<open>orders\<close> lists \<open>total\<close> (position 2), \<open>id\<close> (position 1) and
  \<open>tax\<close> (position 2): the names come out as \<open>id\<close>, \<open>total\<close>, \<open>tax\<close>.
\<close>

theorem get_column_names_sorted_stable_witness:
  "fst (get_column_names [''orders'' \<mapsto> orders_columns] ''orders'' ''column_position'' sales_world)
     = Inr [SStr ''id'', SStr ''total'', SStr ''tax'']
   \<and> (\<exists>cs. fst (get_column_names [''orders'' \<mapsto> orders_columns] ''orders'' ''column_position'' sales_world)
             = Inr (map (\<lambda>c. the (c ''column_name'')) cs)
           \<and> length (map (\<lambda>c. the (c ''column_name'')) cs) = length orders_columns
           \<and> sorted (map (\<lambda>c. the (key_int ''column_position'' c)) cs)
           \<and> (\<forall>k. filter (\<lambda>c. the (key_int ''column_position'' c) = k) cs
                  = filter (\<lambda>c. the (key_int ''column_position'' c) = k) orders_columns))"
proof -
  have h1: "[''orders'' \<mapsto> orders_columns] ''orders'' = Some orders_columns" by simp
  have h2: "list_all (\<lambda>c. key_int ''column_position'' c \<noteq> None \<and> c ''column_name'' \<noteq> None) orders_columns"
    by (simp add: orders_columns_def key_int_def)
  have v: "fst (get_column_names [''orders'' \<mapsto> orders_columns] ''orders'' ''column_position'' sales_world)
     = Inr [SStr ''id'', SStr ''total'', SStr ''tax'']" by code_simp
  show ?thesis
    using v get_column_names_sorted_stable
      [where schema = "[''orders'' \<mapsto> orders_columns]" and tbl = "''orders''"
         and cols = orders_columns and key = "''column_position''" and w = sales_world, OF h1 h2]
    by blast
qed

subsection \<open>The generator of partition files\<close>

lemma exhaust_Suspended:
  "\<exists>w'. exhaust (Suspended s t fs) w = (Inr fs, w')"
proof (induction fs arbitrary: w)
  case Nil
  show ?case by (subst exhaust.simps) simp
next
  case (Cons f fs)
  from Cons [of "say INFO (found f s t) w"] obtain w'
    where "exhaust (Suspended s t fs) (say INFO (found f s t) w) = (Inr fs, w')" by blast
  then show ?case
    by (subst exhaust.simps) simp
qed

text \<open>
  C10. \<open>process_files\<close> is a generator: the call gives a generator that has not
  started and cannot raise. For a source root and a dataset name whose directory has
  no file matching \<open>part-*\<close>, ValueError is raised by the first \<open>next\<close>, that is
  when the result is first iterated. With at least one match, iterating to the end
  gives exactly the matched paths, in order, and no error.
\<close>

theorem process_files_is_lazy:
  "process_files src tbl = Created src tbl
   \<and> (glob_table src tbl w = [] \<longrightarrow>
        fst (gen_next (process_files src tbl) w) = Inl ValueError
        \<and> fst (exhaust (process_files src tbl) w) = Inl ValueError)
   \<and> (glob_table src tbl w \<noteq> [] \<longrightarrow>
        fst (exhaust (process_files src tbl) w) = Inr (glob_table src tbl w))"
proof (intro conjI impI)
  show "process_files src tbl = Created src tbl" by (simp add: process_files_def)
next
  assume e: "glob_table src tbl w = []"
  then show "fst (gen_next (process_files src tbl) w) = Inl ValueError"
    by (simp add: process_files_def Let_def)
  from e show "fst (exhaust (process_files src tbl) w) = Inl ValueError"
    by (subst exhaust.simps) (simp add: process_files_def Let_def)
next
  assume "glob_table src tbl w \<noteq> []"
  then obtain f fs where g: "glob_table src tbl w = f # fs" by (cases "glob_table src tbl w") auto
  let ?w = "say INFO (found f src tbl) (did (Glob (src @ ''/'' @ tbl @ ''/part-*''))
              (say INFO (''Search directory created: '' @ src @ ''/'' @ tbl @ ''/part-*'') w))"
  from exhaust_Suspended [of src tbl fs ?w] obtain w'
    where "exhaust (Suspended src tbl fs) ?w = (Inr fs, w')" by blast
  then have "fst (exhaust (process_files src tbl) w) = Inr (f # fs)"
    by (subst exhaust.simps) (simp add: process_files_def Let_def g)
  with g show "fst (exhaust (process_files src tbl) w) = Inr (glob_table src tbl w)" by simp
qed

text \<open>
  In the scenario, \<open>sales\<close> has one partition file and \<open>users\<close> has none.
\<close>

theorem process_files_is_lazy_witness:
  "glob_table ''/data/src'' ''users'' sales_world = []
   \<and> fst (gen_next (process_files ''/data/src'' ''users'') sales_world) = Inl ValueError
   \<and> glob_table ''/data/src'' ''sales'' sales_world \<noteq> []
   \<and> fst (exhaust (process_files ''/data/src'' ''sales'') sales_world) = Inr [''/data/src/sales/part-001'']"
proof -
  have a: "glob_table ''/data/src'' ''users'' sales_world = []" by code_simp
  have b: "glob_table ''/data/src'' ''sales'' sales_world = [''/data/src/sales/part-001'']" by code_simp
  then have b': "glob_table ''/data/src'' ''sales'' sales_world \<noteq> []" by simp
  from a process_files_is_lazy [of "''/data/src''" "''users''" sales_world]
  have c: "fst (gen_next (process_files ''/data/src'' ''users'') sales_world) = Inl ValueError"
    by blast
  from b' process_files_is_lazy [of "''/data/src''" "''sales''" sales_world]
  have "fst (exhaust (process_files ''/data/src'' ''sales'') sales_world)
          = Inr (glob_table ''/data/src'' ''sales'' sales_world)"
    by blast
  then have d: "fst (exhaust (process_files ''/data/src'' ''sales'') sales_world)
          = Inr [''/data/src/sales/part-001'']"
    by (simp only: b)
  from a c b' d show ?thesis by blast
qed

subsection \<open>A string as the dataset argument\<close>

lemma globs_say [simp]: "globs (say l m w) = globs w" "globs (say_root l m w) = globs w"
  by (simp_all add: globs_def)

lemma globs_did [simp]: "globs (did e w) = globs w @ (if is_Glob e then [e] else [])"
  by (simp add: globs_def)

lemma globs_cong: "io w' = io w \<Longrightarrow> globs w' = globs w"
  by (simp add: globs_def)

lemma globs_read_schema [simp]: "globs (snd (read_schema src w)) = globs w"
  by (simp add: read_schema_def Let_def split: option.splits sum.splits)

lemma globs_get_column_names [simp]: "globs (snd (get_column_names sch t k w)) = globs w"
  by (simp add: get_column_names_def split: option.splits sum.splits)

lemma globs_read_csv [simp]: "globs (snd (read_csv p c w)) = globs w"
  by (simp add: read_csv_def Let_def split: sum.splits)

lemma globs_os_makedirs [simp]: "globs (snd (os_makedirs p w)) = globs w"
  by (rule globs_cong) (simp add: os_makedirs_def)

lemma globs_df_to_json [simp]: "globs (snd (df_to_json df p w)) = globs w"
proof -
  have "globs (snd (open_write p ls w')) = globs w'" for ls w'
    by (rule globs_cong) (simp add: open_write_def)
  then show ?thesis by (simp add: df_to_json_def)
qed

lemma globs_to_json [simp]: "globs (snd (to_json df tgt p ds w)) = globs w"
proof -
  let ?d = "os_path_join tgt ds"
  let ?n = "fst (os_path_splitext (os_path_basename p)) @ ''.json''"
  obtain r1 w1 where m: "os_makedirs ?d (did (Makedirs ?d) w) = (r1, w1)"
    by (cases "os_makedirs ?d (did (Makedirs ?d) w)") auto
  from globs_os_makedirs [of ?d "did (Makedirs ?d) w"] m have g1: "globs w1 = globs w" by simp
  let ?w2 = "say INFO (''Successfully created directory for json file: '' @ ?d) w1"
  obtain r3 w3 where j: "df_to_json df ?n ?w2 = (r3, w3)" by (cases "df_to_json df ?n ?w2") auto
  from j have "globs w3 = globs (snd (df_to_json df ?n ?w2))" by (simp only: snd_conv)
  also from g1 have "\<dots> = globs w" by simp
  finally have g3: "globs w3 = globs w" .
  from m j g1 g3 show ?thesis
    by (cases r1; cases r3) (simp_all add: to_json_def Let_def andthen_def on_error_def to_json_handler_def)
qed

lemma globs_convert_partition [simp]: "globs (snd (convert_partition c tgt ds p w)) = globs w"
proof -
  obtain r1 w1 where r: "read_csv p c w = (r1, w1)" by (cases "read_csv p c w") auto
  from globs_read_csv [of p c w] r have g1: "globs w1 = globs w" by simp
  show ?thesis
  proof (cases r1)
    case (Inl e)
    with r g1 show ?thesis by (simp add: convert_partition_def andthen_def)
  next
    case (Inr df)
    obtain r2 w2 where t: "to_json df tgt p ds w1 = (r2, w2)" by (cases "to_json df tgt p ds w1") auto
    from globs_to_json [of df tgt p ds w1] t g1 have "globs w2 = globs w" by simp
    with r Inr t show ?thesis by (cases r2) (simp_all add: convert_partition_def andthen_def)
  qed
qed

lemma globs_for_each_Suspended:
  assumes "\<And>x w. globs (snd (body x w)) = globs w"
  shows "globs (snd (for_each body (Suspended s t fs) w)) = globs w"
proof (induction fs arbitrary: w)
  case Nil
  show ?case by (subst for_each.simps) simp
next
  case (Cons f fs)
  let ?w1 = "say INFO (found f s t) w"
  obtain r w2 where b: "body f ?w1 = (r, w2)" by (cases "body f ?w1") auto
  from assms [of f ?w1] b have w2: "globs w2 = globs w" by simp
  from Cons [of w2] w2 have "globs (snd (for_each body (Suspended s t fs) w2)) = globs w" by simp
  with b w2 show ?case by (subst for_each.simps) (simp split: sum.splits)
qed

lemma globs_for_each:
  assumes "\<And>x w. globs (snd (body x w)) = globs w"
  shows "globs (snd (for_each body (process_files s t) w)) = globs w @ [Glob (s @ ''/'' @ t @ ''/part-*'')]"
proof (cases "glob_table s t w")
  case Nil
  then show ?thesis
    by (subst for_each.simps) (simp add: process_files_def Let_def)
next
  case (Cons f fs)
  let ?w0 = "did (Glob (s @ ''/'' @ t @ ''/part-*'')) (say INFO (''Search directory created: '' @ s @ ''/'' @ t @ ''/part-*'') w)"
  let ?w1 = "say INFO (found f s t) ?w0"
  have q1: "globs ?w1 = globs w @ [Glob (s @ ''/'' @ t @ ''/part-*'')]" by simp
  obtain r w2 where b: "body f ?w1 = (r, w2)" by (cases "body f ?w1") auto
  from assms [of f ?w1] b q1 have w2: "globs w2 = globs w @ [Glob (s @ ''/'' @ t @ ''/part-*'')]"
    by simp
  from globs_for_each_Suspended [of body s t fs w2, OF assms] w2
  have "globs (snd (for_each body (Suspended s t fs) w2)) = globs w @ [Glob (s @ ''/'' @ t @ ''/part-*'')]"
    by simp
  with b w2 Cons show ?thesis
    by (subst for_each.simps) (simp add: process_files_def Let_def split: sum.splits)
qed

text \<open>
  One pass of the loop of \<open>main\<close>: it globs for the partition files of its dataset
  once or, when it fails before that, not at all.
\<close>

lemma globs_convert_file:
  "(globs (snd (convert_file src tgt d w)) = globs w \<and> fst (convert_file src tgt d w) \<noteq> Inr ())
   \<or> globs (snd (convert_file src tgt d w)) = globs w @ [Glob (src @ ''/'' @ d @ ''/part-*'')]"
proof -
  obtain r1 w1 where s: "read_schema src w = (r1, w1)" by (cases "read_schema src w") auto
  from globs_read_schema [of src w] s have g1: "globs w1 = globs w" by simp
  show ?thesis
  proof (cases r1)
    case (Inl e)
    with s g1 show ?thesis by (simp add: convert_file_def andthen_def on_error_def)
  next
    case (Inr sch)
    obtain r2 w2 where g: "get_column_names sch d ''column_position'' w1 = (r2, w2)"
      by (cases "get_column_names sch d ''column_position'' w1") auto
    from globs_get_column_names [of sch d "''column_position''" w1] g g1 have g2: "globs w2 = globs w"
      by simp
    show ?thesis
    proof (cases r2)
      case (Inl e)
      with s Inr g g2 show ?thesis by (simp add: convert_file_def andthen_def on_error_def)
    next
      case c: (Inr cols)
      obtain r3 w3 where l: "for_each (convert_partition cols tgt d) (process_files src d) w2 = (r3, w3)"
        by (cases "for_each (convert_partition cols tgt d) (process_files src d) w2") auto
      have "globs (snd (for_each (convert_partition cols tgt d) (process_files src d) w2))
              = globs w2 @ [Glob (src @ ''/'' @ d @ ''/part-*'')]"
        by (rule globs_for_each) (rule globs_convert_partition)
      with l g2 have "globs w3 = globs w @ [Glob (src @ ''/'' @ d @ ''/part-*'')]" by simp
      with s Inr g c l show ?thesis
        by (cases r3) (simp_all add: convert_file_def andthen_def on_error_def)
    qed
  qed
qed

text \<open>
  The loop of \<open>main\<close> over the names: it treats them in order, as far as it gets,
  and all of them when it ends without an error.
\<close>

lemma globs_convert_all:
  "\<exists>k \<le> length ds.
     globs (snd (convert_all src tgt ds w))
       = globs w @ map (\<lambda>d. Glob (src @ ''/'' @ d @ ''/part-*'')) (take k ds)
     \<and> (fst (convert_all src tgt ds w) = Inr () \<longrightarrow> k = length ds)"
proof (induction ds arbitrary: w)
  case Nil
  show ?case by simp
next
  case (Cons d ds)
  let ?pat = "\<lambda>d. Glob (src @ ''/'' @ d @ ''/part-*'')"
  obtain r w1 where f: "convert_file src tgt d w = (r, w1)" by (cases "convert_file src tgt d w") auto
  show ?case
  proof (cases r)
    case (Inl e)
    from globs_convert_file [of src tgt d w] f
    have "globs w1 = globs w @ map ?pat (take 0 (d # ds)) \<or> globs w1 = globs w @ map ?pat (take 1 (d # ds))"
      by auto
    with f Inl show ?thesis
      by (auto simp: andthen_def intro: exI [of _ 0] exI [of _ 1])
  next
    case (Inr u)
    with globs_convert_file [of src tgt d w] f have g1: "globs w1 = globs w @ [?pat d]" by auto
    from Cons [of w1] obtain k where k: "k \<le> length ds"
      and gk: "globs (snd (convert_all src tgt ds w1)) = globs w1 @ map ?pat (take k ds)"
      and ok: "fst (convert_all src tgt ds w1) = Inr () \<longrightarrow> k = length ds"
      by blast
    from f Inr have e: "convert_all src tgt (d # ds) w = convert_all src tgt ds w1"
      by (simp add: andthen_def)
    from k gk ok g1 e show ?thesis
      by (intro exI [of _ "Suc k"]) simp
  qed
qed

text \<open>
  C9. When \<open>main\<close> is called with \<open>ds_name\<close> bound to a non-empty string, the
  loop runs over the characters of the string and converts each as a dataset name:
  the run is the run over the list of the one-character strings. It treats the
  characters in order, each as the name of a dataset directory under the source root
  whose partition files it globs for: the patterns it has globbed for are those of
  the first \<open>k\<close> characters, for some \<open>k\<close>, and of all the characters when the run
  ends without an error. (The environment variables are set, otherwise \<open>main\<close>
  raises before it looks at the argument.)
\<close>

theorem main_string_argument:
  assumes "s \<noteq> []" and "\<not> unset (environ w ''TGT_BASE_DIR'')" and "\<not> unset (environ w ''SRC_BASE_DIR'')"
  shows "main (StrArg s) w =
           on_error
             (convert_all (the (environ w ''SRC_BASE_DIR'')) (the (environ w ''TGT_BASE_DIR''))
                (map (\<lambda>c. [c]) s) (say INFO ''File converter run with runtime arguments'' w))
             (\<lambda>e. say CRITICAL ''An unhandled exception occurred'')
         \<and> main (StrArg s) w = main (ListArg (map (\<lambda>c. [c]) s)) w
         \<and> (\<exists>k \<le> length s.
              globs (snd (main (StrArg s) w))
                = globs w @ map (\<lambda>c. Glob (the (environ w ''SRC_BASE_DIR'') @ ''/'' @ [c] @ ''/part-*''))
                              (take k s)
              \<and> (fst (main (StrArg s) w) = Inr () \<longrightarrow> k = length s))
         \<and> (fst (main (StrArg s) w) = Inr () \<longrightarrow>
              globs (snd (main (StrArg s) w))
                = globs w @ map (\<lambda>c. Glob (the (environ w ''SRC_BASE_DIR'') @ ''/'' @ [c] @ ''/part-*'')) s)"
proof -
  let ?src = "the (environ w ''SRC_BASE_DIR'')"
  let ?tgt = "the (environ w ''TGT_BASE_DIR'')"
  let ?w0 = "say INFO ''File converter run with runtime arguments'' w"
  let ?run = "convert_all ?src ?tgt (map (\<lambda>c. [c]) s) ?w0"
  let ?pat = "\<lambda>c. Glob (?src @ ''/'' @ [c] @ ''/part-*'')"
  from assms have m: "main (StrArg s) w = on_error ?run (\<lambda>e. say CRITICAL ''An unhandled exception occurred'')"
    by (simp add: main_def andthen_def Let_def)
  from assms have l: "main (StrArg s) w = main (ListArg (map (\<lambda>c. [c]) s)) w"
    by (simp add: main_def andthen_def Let_def)
  obtain r w1 where c: "?run = (r, w1)" by (cases ?run) auto
  from m c have f: "fst (main (StrArg s) w) = r" and g: "globs (snd (main (StrArg s) w)) = globs w1"
    by (cases r; simp add: on_error_def)+
  from globs_convert_all [of "map (\<lambda>c. [c]) s" ?src ?tgt ?w0] c obtain k where
    k: "k \<le> length s"
    and gk: "globs w1 = globs w @ map (\<lambda>d. Glob (?src @ ''/'' @ d @ ''/part-*'')) (take k (map (\<lambda>c. [c]) s))"
    and ok: "r = Inr () \<longrightarrow> k = length s"
    by auto
  from gk have gk': "globs w1 = globs w @ map ?pat (take k s)"
    by (simp add: take_map comp_def)
  from k gk' ok f g
  have p: "\<exists>k \<le> length s. globs (snd (main (StrArg s) w)) = globs w @ map ?pat (take k s)
              \<and> (fst (main (StrArg s) w) = Inr () \<longrightarrow> k = length s)"
    by auto
  from k gk' ok f g
  have q: "fst (main (StrArg s) w) = Inr () \<longrightarrow> globs (snd (main (StrArg s) w)) = globs w @ map ?pat s"
    by auto
  from m l p q show ?thesis by blast
qed

text \<open>
  With the argument \<open>"ab"\<close> the run over the scenario looks for a dataset \<open>a\<close>,
  which the schema does not have. Over the datasets \<open>a\<close> and \<open>b\<close> it ends
  without an error, having globbed for the partition files of \<open>a\<close> and then of
  \<open>b\<close> and written the output of both.
\<close>

theorem main_string_argument_witness:
  "main (StrArg ''ab'') sales_world = main (ListArg [''a'', ''b'']) sales_world
   \<and> fst (main (StrArg ''ab'') sales_world) = Inl (KeyError ''a'')
   \<and> fst (main (StrArg ''ab'') letters_world) = Inr ()
   \<and> globs (snd (main (StrArg ''ab'') letters_world))
       = [Glob ''/data/src/a/part-*'', Glob ''/data/src/b/part-*'']
   \<and> lookup_file (snd (main (StrArg ''ab'') letters_world)) ''part-001.json'' = Some [''{\"k\":1,\"v\":\"x\"}'']
   \<and> lookup_file (snd (main (StrArg ''ab'') letters_world)) ''part-002.json'' = Some [''{\"k\":2,\"v\":\"y\"}'']"
proof -
  have h: "''ab'' \<noteq> []" "\<not> unset (environ sales_world ''TGT_BASE_DIR'')"
    "\<not> unset (environ sales_world ''SRC_BASE_DIR'')"
    by (simp_all add: sales_world_def unset_def)
  have v: "fst (main (ListArg [''a'', ''b'']) sales_world) = Inl (KeyError ''a'')" by code_simp
  have m: "map (\<lambda>c. [c]) ''ab'' = [''a'', ''b'']" by simp
  from main_string_argument [OF h]
  have "main (StrArg ''ab'') sales_world = main (ListArg (map (\<lambda>c. [c]) ''ab'')) sales_world"
    by blast
  then have e: "main (StrArg ''ab'') sales_world = main (ListArg [''a'', ''b'']) sales_world"
    by (simp only: m)
  have h': "''ab'' \<noteq> []" "\<not> unset (environ letters_world ''TGT_BASE_DIR'')"
    "\<not> unset (environ letters_world ''SRC_BASE_DIR'')"
    by (simp_all add: letters_world_def unset_def)
  have ok: "fst (main (StrArg ''ab'') letters_world) = Inr ()" by code_simp
  have g0: "globs letters_world = []" by code_simp
  have pm: "map (\<lambda>c. Glob (the (environ letters_world ''SRC_BASE_DIR'') @ ''/'' @ [c] @ ''/part-*'')) ''ab''
              = [Glob ''/data/src/a/part-*'', Glob ''/data/src/b/part-*'']"
    by (simp add: letters_world_def)
  from main_string_argument [OF h'] ok
  have "globs (snd (main (StrArg ''ab'') letters_world))
          = globs letters_world
            @ map (\<lambda>c. Glob (the (environ letters_world ''SRC_BASE_DIR'') @ ''/'' @ [c] @ ''/part-*'')) ''ab''"
    by blast
  then have g: "globs (snd (main (StrArg ''ab'') letters_world))
                  = [Glob ''/data/src/a/part-*'', Glob ''/data/src/b/part-*'']"
    by (simp only: g0 pm append_Nil)
  have o1: "lookup_file (snd (main (StrArg ''ab'') letters_world)) ''part-001.json'' = Some [''{\"k\":1,\"v\":\"x\"}'']"
    by code_simp
  have o2: "lookup_file (snd (main (StrArg ''ab'') letters_world)) ''part-002.json'' = Some [''{\"k\":2,\"v\":\"y\"}'']"
    by code_simp
  from e v ok g o1 o2 show ?thesis by simp
qed

subsection \<open>A missing schema document\<close>

lemma read_schema_absent:
  assumes "lookup_file w (os_path_join src ''schemas.json'') = None"
    and "resolve w (os_path_join src ''schemas.json'') \<notin> set (dirs w)"
  shows "read_schema src w =
           (Inl (FileNotFoundError (os_path_join src ''schemas.json'')),
            say ERROR (''No file found in schema directory: '' @ os_path_join src ''schemas.json'')
              (did (OpenSchema (os_path_join src ''schemas.json'')) w))"
  using assms by (simp add: read_schema_def open_read_def Let_def)

lemma convert_file_absent:
  assumes "lookup_file w (os_path_join src ''schemas.json'') = None"
    and "resolve w (os_path_join src ''schemas.json'') \<notin> set (dirs w)"
  shows "convert_file src tgt d w =
           (Inl (FileNotFoundError (os_path_join src ''schemas.json'')),
            say_root CRITICAL ''An unhandled exception occurred''
              (say ERROR (''No file found in schema directory: '' @ os_path_join src ''schemas.json'')
                 (did (OpenSchema (os_path_join src ''schemas.json'')) w)))"
  by (simp add: convert_file_def read_schema_absent [OF assms] andthen_def on_error_def)

lemma convert_all_absent:
  assumes "lookup_file w (os_path_join src ''schemas.json'') = None"
    and "resolve w (os_path_join src ''schemas.json'') \<notin> set (dirs w)"
    and "ds \<noteq> []"
  shows "fst (convert_all src tgt ds w) = Inl (FileNotFoundError (os_path_join src ''schemas.json''))
         \<and> files (snd (convert_all src tgt ds w)) = files w
         \<and> dirs (snd (convert_all src tgt ds w)) = dirs w
         \<and> filter on_partition (io (snd (convert_all src tgt ds w))) = filter on_partition (io w)"
proof -
  from assms(3) obtain d ds' where "ds = d # ds'" by (cases ds) auto
  then show ?thesis
    by (simp add: convert_file_absent [OF assms(1,2)] andthen_def)
qed

text \<open>
  C7. If \<open>schemas.json\<close> is absent under the source root (no file and no directory
  of that name), the run aborts with FileNotFoundError, the exception \<open>read_schema\<close>
  raises for a schema that is not found, and writes nothing: the files and the
  directories are as before, and no partition was read, no directory made and no
  output opened. The source and target roots are those of the environment, which has
  both. The FileNotFoundError is the one of \<open>open\<close> on the schema path whenever the
  run has a dataset to convert; a run without an argument over a source root without
  any partition file ends earlier, with the FileNotFoundError of the discovery.
\<close>

theorem missing_schema_aborts:
  assumes "\<not> unset (environ w ''TGT_BASE_DIR'')" and "environ w ''SRC_BASE_DIR'' = Some src" and "src \<noteq> []"
    and "lookup_file w (os_path_join src ''schemas.json'') = None"
    and "resolve w (os_path_join src ''schemas.json'') \<notin> set (dirs w)"
  shows "(\<exists>p. fst (main arg w) = Inl (FileNotFoundError p))
         \<and> (\<not> (falsy arg \<and> glob_all src w = []) \<longrightarrow>
              fst (main arg w) = Inl (FileNotFoundError (os_path_join src ''schemas.json'')))
         \<and> files (snd (main arg w)) = files w
         \<and> dirs (snd (main arg w)) = dirs w
         \<and> filter on_partition (io (snd (main arg w))) = filter on_partition (io w)"
proof -
  have env: "\<not> (unset (environ w ''TGT_BASE_DIR'') \<or> unset (environ w ''SRC_BASE_DIR''))"
    using assms(1-3) by (simp add: unset_def)
  show ?thesis
  proof (cases "falsy arg")
    case True
    show ?thesis
    proof (cases "glob_all src w = []")
      case e: True
      with True env assms(2) show ?thesis
        by (simp add: main_def discover_def glob_all_def Let_def andthen_def on_error_def)
    next
      case ne: False
      let ?w = "did (Glob (src @ ''/*/part-*'')) (say WARNING ''No dataset name provided as runtime argument'' w)"
      let ?ds = "map (\<lambda>ds_dir. os_path_basename (fst (os_path_split ds_dir))) (glob_all src w)"
      have d: "discover src w = (Inr ?ds, ?w)"
        using ne by (simp add: discover_def glob_all_def Let_def)
      have "?ds \<noteq> []" using ne by simp
      from convert_all_absent [of ?w src ?ds tgt for tgt, OF _ _ this] assms(4,5)
      have c: "fst (convert_all src tgt ?ds ?w) = Inl (FileNotFoundError (os_path_join src ''schemas.json''))
         \<and> files (snd (convert_all src tgt ?ds ?w)) = files w
         \<and> dirs (snd (convert_all src tgt ?ds ?w)) = dirs w
         \<and> filter on_partition (io (snd (convert_all src tgt ?ds ?w))) = filter on_partition (io w)" for tgt
        by simp
      have m: "main arg w = on_error (convert_all src (the (environ w ''TGT_BASE_DIR'')) ?ds ?w)
                 (\<lambda>e. say CRITICAL ''An unhandled exception occurred'')"
        using True env assms(2) d by (simp add: main_def andthen_def Let_def)
      show ?thesis
        using c [of "the (environ w ''TGT_BASE_DIR'')"]
        by (cases "convert_all src (the (environ w ''TGT_BASE_DIR'')) ?ds ?w")
           (auto simp: m on_error_def)
    qed
  next
    case False
    let ?w = "say INFO ''File converter run with runtime arguments'' w"
    have "iterate arg \<noteq> []" using False by (cases arg) auto
    from convert_all_absent [of ?w src "iterate arg" tgt for tgt, OF _ _ this] assms(4,5)
    have c: "fst (convert_all src tgt (iterate arg) ?w) = Inl (FileNotFoundError (os_path_join src ''schemas.json''))
         \<and> files (snd (convert_all src tgt (iterate arg) ?w)) = files w
         \<and> dirs (snd (convert_all src tgt (iterate arg) ?w)) = dirs w
         \<and> filter on_partition (io (snd (convert_all src tgt (iterate arg) ?w))) = filter on_partition (io w)" for tgt
      by simp
    have m: "main arg w = on_error (convert_all src (the (environ w ''TGT_BASE_DIR'')) (iterate arg) ?w)
                 (\<lambda>e. say CRITICAL ''An unhandled exception occurred'')"
      using False env assms(2) by (simp add: main_def andthen_def Let_def)
    show ?thesis
      using c [of "the (environ w ''TGT_BASE_DIR'')"] False
      by (cases "convert_all src (the (environ w ''TGT_BASE_DIR'')) (iterate arg) ?w")
         (auto simp: m on_error_def)
  qed
qed

text \<open>The scenario without its schema document.\<close>

theorem missing_schema_aborts_witness:
  "fst (main NoArg no_schema_world) = Inl (FileNotFoundError ''/data/src/schemas.json'')
   \<and> files (snd (main NoArg no_schema_world)) = files no_schema_world
   \<and> dirs (snd (main NoArg no_schema_world)) = dirs no_schema_world
   \<and> filter on_partition (io (snd (main NoArg no_schema_world))) = []"
proof -
  have h1: "\<not> unset (environ no_schema_world ''TGT_BASE_DIR'')"
    by (simp add: no_schema_world_def sales_world_def unset_def)
  have h2: "environ no_schema_world ''SRC_BASE_DIR'' = Some ''/data/src''"
    by (simp add: no_schema_world_def sales_world_def)
  have h3: "''/data/src'' \<noteq> []" by simp
  have h4: "lookup_file no_schema_world (os_path_join ''/data/src'' ''schemas.json'') = None"
    by code_simp
  have h5: "resolve no_schema_world (os_path_join ''/data/src'' ''schemas.json'') \<notin> set (dirs no_schema_world)"
    by code_simp
  have g: "\<not> (falsy NoArg \<and> glob_all ''/data/src'' no_schema_world = [])" by code_simp
  have p: "os_path_join ''/data/src'' ''schemas.json'' = ''/data/src/schemas.json''" by code_simp
  have i: "filter on_partition (io no_schema_world) = []"
    by (simp add: no_schema_world_def sales_world_def)
  from missing_schema_aborts [OF h1 h2 h3 h4 h5, of NoArg] g
  have "fst (main NoArg no_schema_world) = Inl (FileNotFoundError (os_path_join ''/data/src'' ''schemas.json''))
    \<and> files (snd (main NoArg no_schema_world)) = files no_schema_world
    \<and> dirs (snd (main NoArg no_schema_world)) = dirs no_schema_world
    \<and> filter on_partition (io (snd (main NoArg no_schema_world))) = filter on_partition (io no_schema_world)"
    by blast
  then show ?thesis by (simp only: p i)
qed

subsection \<open>How often the schema document is read\<close>

lemma quiet_iff: "quiet w w' \<longleftrightarrow> (\<exists>ops. io w' = io w @ ops \<and> filter is_OpenSchema ops = [])"
proof
  assume "quiet w w'"
  then have t: "take (length (io w)) (io w') = io w"
    and f: "filter is_OpenSchema (drop (length (io w)) (io w')) = []"
    by (auto simp: quiet_def)
  have "io w' = take (length (io w)) (io w') @ drop (length (io w)) (io w')" by simp
  then have "io w' = io w @ drop (length (io w)) (io w')" by (simp only: t)
  with f show "\<exists>ops. io w' = io w @ ops \<and> filter is_OpenSchema ops = []" by blast
next
  assume "\<exists>ops. io w' = io w @ ops \<and> filter is_OpenSchema ops = []"
  then show "quiet w w'" by (auto simp: quiet_def)
qed

lemma quiet_refl [simp]: "quiet w w"
  by (simp add: quiet_def)

lemma quiet_trans: "quiet w w' \<Longrightarrow> quiet w' w'' \<Longrightarrow> quiet w w''"
  by (auto simp: quiet_iff)

lemma quiet_say [simp]: "quiet w (say l m w') = quiet w w'" "quiet w (say_root l m w') = quiet w w'"
  by (simp_all add: quiet_def)

lemma quiet_did: "\<not> is_OpenSchema e \<Longrightarrow> quiet w w' \<Longrightarrow> quiet w (did e w')"
  by (auto simp: quiet_iff)

lemma open_write_io [simp]: "io (snd (open_write p ls w)) = io w"
  by (simp add: open_write_def)

lemma os_makedirs_io [simp]: "io (snd (os_makedirs p w)) = io w"
  by (simp add: os_makedirs_def)

lemma quiet_cong_io: "io w'' = io w' \<Longrightarrow> quiet w w'' = quiet w w'"
  by (simp add: quiet_def)

lemma read_csv_quiet: "quiet w (snd (read_csv p c w))"
  by (auto simp: read_csv_def Let_def quiet_did split: sum.splits)

lemma df_to_json_quiet: "quiet w (snd (df_to_json df p w))"
  by (simp add: df_to_json_def quiet_cong_io [OF open_write_io] quiet_did)

lemma to_json_quiet: "quiet w (snd (to_json df tgt p ds w))"
proof -
  let ?d = "os_path_join tgt ds"
  let ?n = "fst (os_path_splitext (os_path_basename p)) @ ''.json''"
  let ?m = "os_makedirs ?d (did (Makedirs ?d) w)"
  have m: "quiet w (snd ?m)"
    by (simp add: quiet_cong_io [OF os_makedirs_io] quiet_did)
  show ?thesis
  proof (cases ?m)
    case (Pair r w1)
    with m have w1: "quiet w w1" by simp
    show ?thesis
    proof (cases r)
      case (Inl e)
      with Pair w1 show ?thesis
        by (simp add: to_json_def Let_def andthen_def on_error_def to_json_handler_def)
    next
      case (Inr u)
      let ?w2 = "say INFO (''Successfully created directory for json file: '' @ ?d) w1"
      have "quiet ?w2 (snd (df_to_json df ?n ?w2))" by (rule df_to_json_quiet)
      with w1 have "quiet w (snd (df_to_json df ?n ?w2))"
        by (auto intro: quiet_trans [of w ?w2])
      with Pair Inr show ?thesis
        by (cases "df_to_json df ?n ?w2")
           (auto simp: to_json_def Let_def andthen_def on_error_def to_json_handler_def split: sum.splits)
    qed
  qed
qed

lemma convert_partition_quiet: "quiet w (snd (convert_partition c tgt ds p w))"
proof (cases "read_csv p c w")
  case (Pair r w1)
  from read_csv_quiet [of w p c] Pair have w1: "quiet w w1" by simp
  show ?thesis
  proof (cases r)
    case (Inl e)
    with Pair w1 show ?thesis by (simp add: convert_partition_def andthen_def)
  next
    case (Inr df)
    from to_json_quiet [of w1 df tgt p ds] w1 have "quiet w (snd (to_json df tgt p ds w1))"
      by (rule quiet_trans [rotated])
    with Pair Inr show ?thesis
      by (cases "to_json df tgt p ds w1") (auto simp: convert_partition_def andthen_def split: sum.splits)
  qed
qed

lemma for_each_Suspended_quiet:
  assumes "\<And>x w. quiet w (snd (body x w))"
  shows "quiet w (snd (for_each body (Suspended s t fs) w))"
proof (induction fs arbitrary: w)
  case Nil
  show ?case by (subst for_each.simps) simp
next
  case (Cons f fs)
  let ?w1 = "say INFO (found f s t) w"
  have b: "quiet w (snd (body f ?w1))"
    using assms [of ?w1 f] by (auto simp: quiet_def)
  show ?case
  proof (cases "body f ?w1")
    case (Pair r w2)
    with b have w2: "quiet w w2" by simp
    from Cons [of w2] w2 have "quiet w (snd (for_each body (Suspended s t fs) w2))"
      by (rule quiet_trans [rotated])
    with Pair w2 show ?thesis
      by (subst for_each.simps) (simp split: sum.splits)
  qed
qed

lemma for_each_quiet:
  assumes "\<And>x w. quiet w (snd (body x w))"
  shows "quiet w (snd (for_each body (process_files s t) w))"
proof (cases "glob_table s t w")
  case Nil
  then show ?thesis
    by (subst for_each.simps) (simp add: process_files_def Let_def quiet_did)
next
  case (Cons f fs)
  let ?w0 = "did (Glob (s @ ''/'' @ t @ ''/part-*'')) (say INFO (''Search directory created: '' @ s @ ''/'' @ t @ ''/part-*'') w)"
  let ?w1 = "say INFO (found f s t) ?w0"
  have q1: "quiet w ?w1" by (simp add: quiet_did)
  have b: "quiet ?w1 (snd (body f ?w1))" by (rule assms)
  show ?thesis
  proof (cases "body f ?w1")
    case (Pair r w2)
    from Pair b have "quiet ?w1 w2" by simp
    with q1 have w2: "quiet w w2" by (rule quiet_trans)
    from for_each_Suspended_quiet [of body w2 s t fs, OF assms] w2
    have "quiet w (snd (for_each body (Suspended s t fs) w2))"
      by (rule quiet_trans [rotated])
    with Pair w2 Cons show ?thesis
      by (subst for_each.simps) (simp add: process_files_def Let_def split: sum.splits)
  qed
qed

lemma get_column_names_io [simp]: "io (snd (get_column_names sch t k w)) = io w"
  by (simp add: get_column_names_def split: option.splits sum.splits)

lemma read_schema_io [simp]:
  "io (snd (read_schema src w)) = io w @ [OpenSchema (os_path_join src ''schemas.json'')]"
  by (simp add: read_schema_def Let_def split: option.splits sum.splits)

lemma convert_file_io:
  "\<exists>ops. io (snd (convert_file src tgt d w)) = io w @ OpenSchema (os_path_join src ''schemas.json'') # ops
         \<and> filter is_OpenSchema ops = []"
proof -
  let ?p = "os_path_join src ''schemas.json''"
  have goal: "\<exists>ops. io w' = io w @ OpenSchema ?p # ops \<and> filter is_OpenSchema ops = []"
    if "io w1 = io w @ [OpenSchema ?p]" and "quiet w1 w'" for w1 w'
    using that by (auto simp: quiet_iff)
  show ?thesis
  proof (cases "read_schema src w")
    case (Pair r w1)
    from read_schema_io [of src w] Pair have w1: "io w1 = io w @ [OpenSchema ?p]" by simp
    show ?thesis
    proof (cases r)
      case (Inl e)
      with Pair goal [OF w1, of "say_root CRITICAL ''An unhandled exception occurred'' w1"]
      show ?thesis by (simp add: convert_file_def andthen_def on_error_def)
    next
      case (Inr sch)
      show ?thesis
      proof (cases "get_column_names sch d ''column_position'' w1")
        case g: (Pair r2 w2)
        from get_column_names_io [of sch d "''column_position''" w1] g have w2: "io w2 = io w1" by simp
        show ?thesis
        proof (cases r2)
          case (Inl e)
          with Pair Inr g goal [OF w1, of "say_root CRITICAL ''An unhandled exception occurred'' w2"] w2
          show ?thesis by (simp add: convert_file_def andthen_def on_error_def quiet_def)
        next
          case c: (Inr cols)
          let ?l = "for_each (convert_partition cols tgt d) (process_files src d) w2"
          have "quiet w2 (snd ?l)" by (rule for_each_quiet) (rule convert_partition_quiet)
          with w2 have q: "quiet w1 (snd ?l)" by (simp add: quiet_def)
          show ?thesis
          proof (cases ?l)
            case l: (Pair r3 w3)
            with q have "quiet w1 w3" by simp
            from goal [OF w1 this] goal [OF w1, of "say_root CRITICAL ''An unhandled exception occurred'' w3"] this
            show ?thesis using Pair Inr g c l
              by (cases r3) (simp_all add: convert_file_def andthen_def on_error_def)
          qed
        qed
      qed
    qed
  qed
qed

lemma convert_file_reads: "schema_reads (snd (convert_file src tgt d w)) = schema_reads w + 1"
  using convert_file_io [of src tgt d w] by (auto simp: schema_reads_def)

lemma convert_all_reads:
  "fst (convert_all src tgt ds w) = Inr () \<Longrightarrow>
   schema_reads (snd (convert_all src tgt ds w)) = schema_reads w + length ds"
proof (induction ds arbitrary: w)
  case Nil
  then show ?case by simp
next
  case (Cons d ds)
  show ?case
  proof (cases "convert_file src tgt d w")
    case (Pair r w1)
    from convert_file_reads [of src tgt d w] Pair have r1: "schema_reads w1 = schema_reads w + 1" by simp
    from Cons.prems Pair obtain u where r: "r = Inr u"
      by (cases r) (auto simp: andthen_def)
    with Cons.prems Pair have "fst (convert_all src tgt ds w1) = Inr ()"
      by (simp add: andthen_def)
    from Cons.IH [OF this] r1 Pair r show ?thesis by (simp add: andthen_def)
  qed
qed

text \<open>
  C6, as claimed: \<open>schemas.json\<close> is read exactly once per run, before the
  per-dataset processing. It is read once per dataset: the run over the datasets
  \<open>sales\<close> and \<open>users\<close> of the shop ends without an error and has opened the
  schema document twice.
\<close>

theorem schema_read_counterexample:
  "fst (main (ListArg [''sales'', ''users'']) shop_world) = Inr ()
   \<and> filter is_OpenSchema (io (snd (main (ListArg [''sales'', ''users'']) shop_world)))
       = [OpenSchema ''/data/src/schemas.json'', OpenSchema ''/data/src/schemas.json'']
   \<and> schema_reads (snd (main (ListArg [''sales'', ''users'']) shop_world)) = 2"
  by code_simp

text \<open>
  C6, amended: \<open>schemas.json\<close> is read by \<open>convert_file\<close>, once in every call and
  as its first I/O operation, that is once per dataset and before that dataset's
  columns are resolved and its partitions processed; a run over a non-empty list of
  \<open>n\<close> dataset names that ends without an error has read it \<open>n\<close> times.
\<close>


theorem schema_read_once_per_dataset:
  "(\<exists>ops. io (snd (convert_file src tgt d w)) = io w @ OpenSchema (os_path_join src ''schemas.json'') # ops
         \<and> filter is_OpenSchema ops = [])
   \<and> (ds \<noteq> [] \<and> fst (main (ListArg ds) w) = Inr () \<longrightarrow>
        schema_reads (snd (main (ListArg ds) w)) = schema_reads w + length ds)"
proof (intro conjI impI)
  show "\<exists>ops. io (snd (convert_file src tgt d w)) = io w @ OpenSchema (os_path_join src ''schemas.json'') # ops
         \<and> filter is_OpenSchema ops = []" by (rule convert_file_io)
next
  assume a: "ds \<noteq> [] \<and> fst (main (ListArg ds) w) = Inr ()"
  let ?w = "say INFO ''File converter run with runtime arguments'' w"
  let ?src = "the (environ w ''SRC_BASE_DIR'')" and ?tgt = "the (environ w ''TGT_BASE_DIR'')"
  from a have env: "\<not> (unset (environ w ''TGT_BASE_DIR'') \<or> unset (environ w ''SRC_BASE_DIR''))"
    by (auto simp: main_def)
  with a have m: "main (ListArg ds) w = on_error (convert_all ?src ?tgt ds ?w)
                 (\<lambda>e. say CRITICAL ''An unhandled exception occurred'')"
    by (simp add: main_def andthen_def Let_def)
  with a have ok: "fst (convert_all ?src ?tgt ds ?w) = Inr ()"
    by (cases "convert_all ?src ?tgt ds ?w") (auto simp: on_error_def split: sum.splits)
  then have s: "snd (main (ListArg ds) w) = snd (convert_all ?src ?tgt ds ?w)"
    by (cases "convert_all ?src ?tgt ds ?w") (auto simp: m on_error_def)
  have "schema_reads ?w = schema_reads w" by (simp add: schema_reads_def)
  with convert_all_reads [OF ok] s
  show "schema_reads (snd (main (ListArg ds) w)) = schema_reads w + length ds" by simp
qed


theorem schema_read_once_per_dataset_witness:
  "[''sales'', ''users''] \<noteq> [] \<and> fst (main (ListArg [''sales'', ''users'']) shop_world) = Inr ()
   \<and> schema_reads shop_world = 0
   \<and> schema_reads (snd (main (ListArg [''sales'', ''users'']) shop_world))
       = schema_reads shop_world + length [''sales'', ''users'']"
proof -
  have h: "[''sales'', ''users''] \<noteq> [] \<and> fst (main (ListArg [''sales'', ''users'']) shop_world) = Inr ()"
    by code_simp
  have z: "schema_reads shop_world = 0" by code_simp
  from h schema_read_once_per_dataset [of _ _ _ shop_world "[''sales'', ''users'']"]
  have "schema_reads (snd (main (ListArg [''sales'', ''users'']) shop_world))
       = schema_reads shop_world + length [''sales'', ''users'']"
    by blast
  with h z show ?thesis by blast
qed

subsection \<open>A failure while writing\<close>

lemma to_json_result:
  "fst (to_json df tgt p ds w) = Inr True
   \<or> (\<exists>e. fst (to_json df tgt p ds w) = Inl e \<and> is_IOError e
          \<and> last (log (snd (to_json df tgt p ds w))) = (App, ERROR, ''Error converting DataFrame to JSON''))"
  by (simp add: to_json_def df_to_json_def os_makedirs_def open_write_def Let_def andthen_def
        on_error_def to_json_handler_def)

lemma convert_partition_raises:
  assumes "fst (read_csv p c w) = Inr df"
    and "fst (to_json df tgt p ds (snd (read_csv p c w))) = Inl e"
  shows "convert_partition c tgt ds p w = (Inl e, snd (to_json df tgt p ds (snd (read_csv p c w))))"
  using assms
  by (cases "read_csv p c w"; cases "to_json df tgt p ds (snd (read_csv p c w))")
     (simp add: convert_partition_def andthen_def)

lemma for_each_raises:
  assumes "fst (gen_next g w) = Inr (Some x)"
    and "fst (body x (snd (snd (gen_next g w)))) = Inl e"
  shows "for_each body g w = (Inl e, snd (body x (snd (snd (gen_next g w)))))"
proof -
  obtain r g' w' where n: "gen_next g w = (r, g', w')" by (cases "gen_next g w") auto
  with assms obtain w'' where "body x w' = (Inl e, w'')" by (cases "body x w'") auto
  with n assms(1) show ?thesis by (subst for_each.simps) simp
qed

lemma convert_file_raises:
  assumes "fst (read_schema src w) = Inr sch"
    and "fst (get_column_names sch d ''column_position'' (snd (read_schema src w))) = Inr cols"
    and "fst (for_each (convert_partition cols tgt d) (process_files src d)
               (snd (get_column_names sch d ''column_position'' (snd (read_schema src w))))) = Inl e"
  shows "fst (convert_file src tgt d w) = Inl e
         \<and> last (log (snd (convert_file src tgt d w))) = (Root, CRITICAL, ''An unhandled exception occurred'')"
  using assms
  by (cases "read_schema src w";
      cases "get_column_names sch d ''column_position'' (snd (read_schema src w))";
      cases "for_each (convert_partition cols tgt d) (process_files src d)
               (snd (get_column_names sch d ''column_position'' (snd (read_schema src w))))")
     (simp add: convert_file_def andthen_def on_error_def)

lemma convert_all_raises:
  assumes "fst (convert_file src tgt d w) = Inl e"
  shows "convert_all src tgt (d # rest) w = (Inl e, snd (convert_file src tgt d w))"
  using assms by (cases "convert_file src tgt d w") (simp add: andthen_def)

lemma main_raises:
  assumes "\<not> unset (environ w ''TGT_BASE_DIR'')" and "\<not> unset (environ w ''SRC_BASE_DIR'')" and "l \<noteq> []"
    and "fst (convert_all (the (environ w ''SRC_BASE_DIR'')) (the (environ w ''TGT_BASE_DIR'')) l
               (say INFO ''File converter run with runtime arguments'' w)) = Inl e"
  shows "fst (main (ListArg l) w) = Inl e
         \<and> io (snd (main (ListArg l) w))
            = io (snd (convert_all (the (environ w ''SRC_BASE_DIR'')) (the (environ w ''TGT_BASE_DIR'')) l
                        (say INFO ''File converter run with runtime arguments'' w)))"
  using assms
  by (cases "convert_all (the (environ w ''SRC_BASE_DIR'')) (the (environ w ''TGT_BASE_DIR'')) l
               (say INFO ''File converter run with runtime arguments'' w)")
     (simp add: main_def andthen_def on_error_def Let_def)

lemma os_makedirs_error: "fst (os_makedirs d w) = Inl e \<Longrightarrow> is_IOError e"
  by (auto simp: os_makedirs_def split: if_splits)

lemma df_to_json_error: "fst (df_to_json df n w) = Inl e \<Longrightarrow> is_IOError e"
  by (auto simp: df_to_json_def open_write_def split: if_splits)

lemma to_json_makedirs_fails:
  assumes "fst (os_makedirs (os_path_join tgt ds) (did (Makedirs (os_path_join tgt ds)) w)) = Inl e"
  shows "fst (to_json df tgt p ds w) = Inl e
         \<and> last (log (snd (to_json df tgt p ds w))) = (App, ERROR, ''Error converting DataFrame to JSON'')"
proof -
  obtain w1 where m: "os_makedirs (os_path_join tgt ds) (did (Makedirs (os_path_join tgt ds)) w) = (Inl e, w1)"
    using assms by (cases "os_makedirs (os_path_join tgt ds) (did (Makedirs (os_path_join tgt ds)) w)") auto
  from os_makedirs_error [OF assms] have "is_IOError e" .
  with m show ?thesis
    by (simp add: to_json_def Let_def andthen_def on_error_def to_json_handler_def say_def)
qed

lemma to_json_write_fails:
  assumes "fst (os_makedirs (os_path_join tgt ds) (did (Makedirs (os_path_join tgt ds)) w)) = Inr ()"
    and "fst (df_to_json df (fst (os_path_splitext (os_path_basename p)) @ ''.json'')
               (say INFO (''Successfully created directory for json file: '' @ os_path_join tgt ds)
                  (snd (os_makedirs (os_path_join tgt ds) (did (Makedirs (os_path_join tgt ds)) w))))) = Inl e"
  shows "fst (to_json df tgt p ds w) = Inl e
         \<and> last (log (snd (to_json df tgt p ds w))) = (App, ERROR, ''Error converting DataFrame to JSON'')"
proof -
  obtain w1 where m: "os_makedirs (os_path_join tgt ds) (did (Makedirs (os_path_join tgt ds)) w) = (Inr (), w1)"
    using assms(1) by (cases "os_makedirs (os_path_join tgt ds) (did (Makedirs (os_path_join tgt ds)) w)") auto
  with assms(2) obtain w3 where
    j: "df_to_json df (fst (os_path_splitext (os_path_basename p)) @ ''.json'')
          (say INFO (''Successfully created directory for json file: '' @ os_path_join tgt ds) w1) = (Inl e, w3)"
    by (cases "df_to_json df (fst (os_path_splitext (os_path_basename p)) @ ''.json'')
          (say INFO (''Successfully created directory for json file: '' @ os_path_join tgt ds) w1)") auto
  from assms(2) have "is_IOError e" by (rule df_to_json_error)
  with m j show ?thesis
    by (simp add: to_json_def Let_def andthen_def on_error_def to_json_handler_def say_def)
qed

lemma to_json_true:
  "(fst (to_json df tgt p ds w) = Inr True)
   = (fst (os_makedirs (os_path_join tgt ds) (did (Makedirs (os_path_join tgt ds)) w)) = Inr ()
      \<and> fst (df_to_json df (fst (os_path_splitext (os_path_basename p)) @ ''.json'')
               (say INFO (''Successfully created directory for json file: '' @ os_path_join tgt ds)
                  (snd (os_makedirs (os_path_join tgt ds) (did (Makedirs (os_path_join tgt ds)) w))))) = Inr ())"
proof -
  obtain r1 w1 where m: "os_makedirs (os_path_join tgt ds) (did (Makedirs (os_path_join tgt ds)) w) = (r1, w1)"
    by (cases "os_makedirs (os_path_join tgt ds) (did (Makedirs (os_path_join tgt ds)) w)") auto
  obtain r3 w3 where
    j: "df_to_json df (fst (os_path_splitext (os_path_basename p)) @ ''.json'')
          (say INFO (''Successfully created directory for json file: '' @ os_path_join tgt ds) w1) = (r3, w3)"
    by (cases "df_to_json df (fst (os_path_splitext (os_path_basename p)) @ ''.json'')
          (say INFO (''Successfully created directory for json file: '' @ os_path_join tgt ds) w1)") auto
  from m j show ?thesis
    by (cases r1; cases r3) (simp_all add: to_json_def Let_def andthen_def on_error_def)
qed

text \<open>
  C3, as claimed: on an I/O failure while writing, \<open>to_json\<close> returns false
  instead of propagating the error, and the run goes on with the next partitions and
  datasets. In \<open>locked_world\<close> the output of the first partition cannot be
  written: \<open>to_json\<close> raises PermissionError, \<open>main\<close> ends with that exception,
  and the write that failed is the last I/O operation of the run; the second
  partition of \<open>sales\<close> and the dataset \<open>users\<close> are never read.
\<close>


theorem write_failure_counterexample:
  "fst (to_json sales_frame ''/data/tgt'' ''/data/src/sales/part-001'' ''sales'' locked_world)
     = Inl (PermissionError ''part-001.json'')
   \<and> fst (main (ListArg [''sales'', ''users'']) locked_world) = Inl (PermissionError ''part-001.json'')
   \<and> io (snd (main (ListArg [''sales'', ''users'']) locked_world))
       = [OpenSchema ''/data/src/schemas.json'', Glob ''/data/src/sales/part-*'',
          ReadCsv ''/data/src/sales/part-001'', Makedirs ''/data/tgt/sales'', WriteJson ''part-001.json'']"
  by code_simp

text \<open>
  C3, amended: \<open>to_json\<close> never returns false. Whenever creating the directory
  (\<open>os.makedirs\<close>) or writing the file (\<open>df.to_json\<close>) fails, \<open>to_json\<close> logs
  the failure at level error and raises the same exception again; it returns true
  exactly when both succeed. The exception leaves the loop body
  (\<open>convert_partition\<close>), ends the loop over the partition files without another
  \<open>next\<close>, is logged as critical by \<open>convert_file\<close> and raised again, ends the
  loop over the datasets, and leaves \<open>main\<close>: the run aborts at the partition
  whose output could not be written.
\<close>

theorem write_failure_is_raised:
  "fst (to_json df tgt p ds w) \<noteq> Inr False
   \<and> (fst (to_json df tgt p ds w) = Inr True
       \<or> (\<exists>e. fst (to_json df tgt p ds w) = Inl e \<and> is_IOError e
            \<and> last (log (snd (to_json df tgt p ds w))) = (App, ERROR, ''Error converting DataFrame to JSON'')))
   \<and> (fst (os_makedirs (os_path_join tgt ds) (did (Makedirs (os_path_join tgt ds)) w)) = Inl e \<longrightarrow>
        fst (to_json df tgt p ds w) = Inl e
        \<and> last (log (snd (to_json df tgt p ds w))) = (App, ERROR, ''Error converting DataFrame to JSON''))
   \<and> (fst (os_makedirs (os_path_join tgt ds) (did (Makedirs (os_path_join tgt ds)) w)) = Inr ()
       \<and> fst (df_to_json df (fst (os_path_splitext (os_path_basename p)) @ ''.json'')
                (say INFO (''Successfully created directory for json file: '' @ os_path_join tgt ds)
                   (snd (os_makedirs (os_path_join tgt ds) (did (Makedirs (os_path_join tgt ds)) w))))) = Inl e \<longrightarrow>
        fst (to_json df tgt p ds w) = Inl e
        \<and> last (log (snd (to_json df tgt p ds w))) = (App, ERROR, ''Error converting DataFrame to JSON''))
   \<and> (fst (to_json df tgt p ds w) = Inr True)
      = (fst (os_makedirs (os_path_join tgt ds) (did (Makedirs (os_path_join tgt ds)) w)) = Inr ()
         \<and> fst (df_to_json df (fst (os_path_splitext (os_path_basename p)) @ ''.json'')
                  (say INFO (''Successfully created directory for json file: '' @ os_path_join tgt ds)
                     (snd (os_makedirs (os_path_join tgt ds) (did (Makedirs (os_path_join tgt ds)) w))))) = Inr ())
   \<and> (fst (read_csv p c w) = Inr df \<and> fst (to_json df tgt p ds (snd (read_csv p c w))) = Inl e \<longrightarrow>
        convert_partition c tgt ds p w = (Inl e, snd (to_json df tgt p ds (snd (read_csv p c w)))))
   \<and> (fst (gen_next g w) = Inr (Some x) \<and> fst (body x (snd (snd (gen_next g w)))) = Inl e \<longrightarrow>
        for_each body g w = (Inl e, snd (body x (snd (snd (gen_next g w))))))
   \<and> (fst (read_schema src w) = Inr sch
       \<and> fst (get_column_names sch ds ''column_position'' (snd (read_schema src w))) = Inr c
       \<and> fst (for_each (convert_partition c tgt ds) (process_files src ds)
                 (snd (get_column_names sch ds ''column_position'' (snd (read_schema src w))))) = Inl e \<longrightarrow>
        fst (convert_file src tgt ds w) = Inl e
        \<and> last (log (snd (convert_file src tgt ds w))) = (Root, CRITICAL, ''An unhandled exception occurred''))
   \<and> (fst (convert_file src tgt ds w) = Inl e \<longrightarrow>
        convert_all src tgt (ds # rest) w = (Inl e, snd (convert_file src tgt ds w)))
   \<and> (\<not> unset (environ w ''TGT_BASE_DIR'') \<and> \<not> unset (environ w ''SRC_BASE_DIR'') \<and> l \<noteq> []
       \<and> fst (convert_all (the (environ w ''SRC_BASE_DIR'')) (the (environ w ''TGT_BASE_DIR'')) l
                 (say INFO ''File converter run with runtime arguments'' w)) = Inl e \<longrightarrow>
        fst (main (ListArg l) w) = Inl e
        \<and> io (snd (main (ListArg l) w))
            = io (snd (convert_all (the (environ w ''SRC_BASE_DIR'')) (the (environ w ''TGT_BASE_DIR'')) l
                        (say INFO ''File converter run with runtime arguments'' w))))"
proof -
  have a: "fst (to_json df tgt p ds w) \<noteq> Inr False"
    using to_json_result [of df tgt p ds w] by auto
  show ?thesis
    using a to_json_result [of df tgt p ds w] to_json_makedirs_fails [of tgt ds w e df p]
      to_json_write_fails [of tgt ds w df p e] to_json_true [of df tgt p ds w]
      convert_partition_raises [of p c w df tgt ds e]
      for_each_raises [of g w x body e] convert_file_raises [of src w sch ds c tgt e]
      convert_all_raises [of src tgt ds w e rest] main_raises [of w l e]
    by (intro conjI impI) blast+
qed

text \<open>
  In \<open>locked_world\<close> the file \<open>part-001.json\<close> of the working directory cannot
  be written: the write of the first partition of \<open>sales\<close> fails and the run over
  \<open>sales\<close> and \<open>users\<close> ends with that PermissionError. In \<open>blocked_world\<close>
  the directory cannot be created: \<open>to_json\<close> raises the PermissionError of
  \<open>os.makedirs\<close>. In \<open>shop_world\<close> both succeed and \<open>to_json\<close> returns true.
\<close>

theorem write_failure_is_raised_witness:
  "fst (main (ListArg [''sales'', ''users'']) locked_world) = Inl (PermissionError ''part-001.json'')
   \<and> fst (convert_file ''/data/src'' ''/data/tgt'' ''sales''
              (say INFO ''File converter run with runtime arguments'' locked_world))
       = Inl (PermissionError ''part-001.json'')
   \<and> last (log (snd (convert_file ''/data/src'' ''/data/tgt'' ''sales''
              (say INFO ''File converter run with runtime arguments'' locked_world))))
       = (Root, CRITICAL, ''An unhandled exception occurred'')
   \<and> fst (to_json sales_frame ''/data/tgt'' ''/data/src/sales/part-001'' ''sales'' blocked_world)
       = Inl (PermissionError ''/data/tgt/sales'')
   \<and> last (log (snd (to_json sales_frame ''/data/tgt'' ''/data/src/sales/part-001'' ''sales'' blocked_world)))
       = (App, ERROR, ''Error converting DataFrame to JSON'')
   \<and> fst (to_json sales_frame ''/data/tgt'' ''/data/src/sales/part-001'' ''sales'' shop_world) = Inr True"
proof -
  let ?e = "PermissionError ''part-001.json''"
  let ?c = "[SStr ''id'', SStr ''name'', SStr ''price'']"
  let ?p = "''/data/src/sales/part-001''"
  let ?w0 = "say INFO ''File converter run with runtime arguments'' locked_world"
  let ?w2 = "snd (get_column_names shop_schema ''sales'' ''column_position'' (snd (read_schema ''/data/src'' ?w0)))"
  let ?w3 = "snd (snd (gen_next (process_files ''/data/src'' ''sales'') ?w2))"
  let ?w4 = "snd (read_csv ?p ?c ?w3)"
  have r: "fst (read_csv ?p ?c ?w3) = Inr sales_frame" by code_simp
  have m: "fst (os_makedirs (os_path_join ''/data/tgt'' ''sales'')
                  (did (Makedirs (os_path_join ''/data/tgt'' ''sales'')) ?w4)) = Inr ()"
    by code_simp
  have j: "fst (df_to_json sales_frame (fst (os_path_splitext (os_path_basename ?p)) @ ''.json'')
                  (say INFO (''Successfully created directory for json file: '' @ os_path_join ''/data/tgt'' ''sales'')
                     (snd (os_makedirs (os_path_join ''/data/tgt'' ''sales'')
                             (did (Makedirs (os_path_join ''/data/tgt'' ''sales'')) ?w4))))) = Inl ?e"
    by code_simp
  from m j write_failure_is_raised [where df = sales_frame and tgt = "''/data/tgt''" and p = ?p
      and ds = "''sales''" and w = ?w4 and e = ?e]
  have t: "fst (to_json sales_frame ''/data/tgt'' ?p ''sales'' ?w4) = Inl ?e" by blast
  from r t write_failure_is_raised [where df = sales_frame and tgt = "''/data/tgt''" and p = ?p
      and ds = "''sales''" and w = ?w3 and c = ?c and e = ?e]
  have cp: "convert_partition ?c ''/data/tgt'' ''sales'' ?p ?w3
              = (Inl ?e, snd (to_json sales_frame ''/data/tgt'' ?p ''sales'' ?w4))"
    by blast
  have n: "fst (gen_next (process_files ''/data/src'' ''sales'') ?w2) = Inr (Some ?p)" by code_simp
  from cp have b: "fst (convert_partition ?c ''/data/tgt'' ''sales'' ?p ?w3) = Inl ?e" by simp
  from n b write_failure_is_raised [where w = ?w2 and e = ?e and g = "process_files ''/data/src'' ''sales''"
      and x = ?p and body = "convert_partition ?c ''/data/tgt'' ''sales''"]
  have "for_each (convert_partition ?c ''/data/tgt'' ''sales'') (process_files ''/data/src'' ''sales'') ?w2
          = (Inl ?e, snd (convert_partition ?c ''/data/tgt'' ''sales'' ?p ?w3))"
    by blast
  then have l: "fst (for_each (convert_partition ?c ''/data/tgt'' ''sales'')
                       (process_files ''/data/src'' ''sales'') ?w2) = Inl ?e" by simp
  have s: "fst (read_schema ''/data/src'' ?w0) = Inr shop_schema"
    by (simp add: read_schema_def open_read_def lookup_file_def resolve_def os_path_join_def
          locked_world_def shop_world_def Let_def)
  have g: "fst (get_column_names shop_schema ''sales'' ''column_position'' (snd (read_schema ''/data/src'' ?w0)))
             = Inr ?c" by code_simp
  from s g l write_failure_is_raised [where tgt = "''/data/tgt''" and ds = "''sales''" and w = ?w0
      and c = ?c and e = ?e and src = "''/data/src''" and sch = shop_schema]
  have cf: "fst (convert_file ''/data/src'' ''/data/tgt'' ''sales'' ?w0) = Inl ?e
        \<and> last (log (snd (convert_file ''/data/src'' ''/data/tgt'' ''sales'' ?w0)))
            = (Root, CRITICAL, ''An unhandled exception occurred'')"
    by blast
  with write_failure_is_raised [where tgt = "''/data/tgt''" and ds = "''sales''" and w = ?w0
      and e = ?e and src = "''/data/src''" and rest = "[''users'']"]
  have "convert_all ''/data/src'' ''/data/tgt'' [''sales'', ''users''] ?w0
          = (Inl ?e, snd (convert_file ''/data/src'' ''/data/tgt'' ''sales'' ?w0))"
    by blast
  then have ca: "fst (convert_all ''/data/src'' ''/data/tgt'' [''sales'', ''users''] ?w0) = Inl ?e" by simp
  have env: "\<not> unset (environ locked_world ''TGT_BASE_DIR'')" "\<not> unset (environ locked_world ''SRC_BASE_DIR'')"
    "[''sales'', ''users''] \<noteq> []"
    "the (environ locked_world ''SRC_BASE_DIR'') = ''/data/src''"
    "the (environ locked_world ''TGT_BASE_DIR'') = ''/data/tgt''"
    by (simp_all add: locked_world_def shop_world_def unset_def)
  from ca env(4,5)
  have ca': "fst (convert_all (the (environ locked_world ''SRC_BASE_DIR'')) (the (environ locked_world ''TGT_BASE_DIR''))
                  [''sales'', ''users''] ?w0) = Inl ?e" by simp
  from ca' env(1-3) write_failure_is_raised [where w = locked_world and e = ?e and l = "[''sales'', ''users'']"]
  have mn: "fst (main (ListArg [''sales'', ''users'']) locked_world) = Inl ?e" by blast
  have bm: "fst (os_makedirs (os_path_join ''/data/tgt'' ''sales'')
                  (did (Makedirs (os_path_join ''/data/tgt'' ''sales'')) blocked_world))
              = Inl (PermissionError ''/data/tgt/sales'')"
    by code_simp
  from bm write_failure_is_raised [where df = sales_frame and tgt = "''/data/tgt''" and p = ?p
      and ds = "''sales''" and w = blocked_world and e = "PermissionError ''/data/tgt/sales''"]
  have bl: "fst (to_json sales_frame ''/data/tgt'' ?p ''sales'' blocked_world)
              = Inl (PermissionError ''/data/tgt/sales'')
            \<and> last (log (snd (to_json sales_frame ''/data/tgt'' ?p ''sales'' blocked_world)))
              = (App, ERROR, ''Error converting DataFrame to JSON'')"
    by blast
  have sm: "fst (os_makedirs (os_path_join ''/data/tgt'' ''sales'')
                  (did (Makedirs (os_path_join ''/data/tgt'' ''sales'')) shop_world)) = Inr ()"
    by code_simp
  have sj: "fst (df_to_json sales_frame (fst (os_path_splitext (os_path_basename ?p)) @ ''.json'')
                  (say INFO (''Successfully created directory for json file: '' @ os_path_join ''/data/tgt'' ''sales'')
                     (snd (os_makedirs (os_path_join ''/data/tgt'' ''sales'')
                             (did (Makedirs (os_path_join ''/data/tgt'' ''sales'')) shop_world))))) = Inr ()"
    by code_simp
  from sm sj write_failure_is_raised [where df = sales_frame and tgt = "''/data/tgt''" and p = ?p
      and ds = "''sales''" and w = shop_world]
  have ok: "fst (to_json sales_frame ''/data/tgt'' ?p ''sales'' shop_world) = Inr True" by blast
  from mn cf bl ok show ?thesis by blast
qed

subsection \<open>The discovery of datasets\<close>

lemma until_slash:
  "CHR ''/'' \<notin> set g \<Longrightarrow> dropWhile (\<lambda>c. c \<noteq> CHR ''/'') (g @ CHR ''/'' # r) = CHR ''/'' # r"
  "CHR ''/'' \<notin> set g \<Longrightarrow> takeWhile (\<lambda>c. c \<noteq> CHR ''/'') (g @ CHR ''/'' # r) = g"
  by (induction g) auto

lemma cut_at_last_slash:
  assumes "CHR ''/'' \<notin> set f"
  shows "dropWhile (\<lambda>c. c \<noteq> CHR ''/'') (rev (a @ CHR ''/'' # f)) = CHR ''/'' # rev a"
    and "takeWhile (\<lambda>c. c \<noteq> CHR ''/'') (rev (a @ CHR ''/'' # f)) = rev f"
  using assms by (simp_all add: until_slash)

lemma basename_append:
  "CHR ''/'' \<notin> set f \<Longrightarrow> os_path_basename (a @ CHR ''/'' # f) = f"
  by (simp add: os_path_basename_def cut_at_last_slash del: rev_append)

lemma dataset_of_path:
  assumes "d \<noteq> []" and "CHR ''/'' \<notin> set d" and "CHR ''/'' \<notin> set f"
  shows "os_path_basename (fst (os_path_split (src @ ''/'' @ d @ ''/'' @ f))) = d"
proof -
  let ?a = "src @ CHR ''/'' # d"
  have p: "src @ ''/'' @ d @ ''/'' @ f = ?a @ CHR ''/'' # f" by simp
  obtain c cs where d: "rev d = c # cs" using assms(1) by (cases "rev d") auto
  then have "c \<in> set d" by (metis list.set_intros(1) set_rev)
  with assms(2) have c: "c \<noteq> CHR ''/''" by auto
  from d have rs: "rstrip (CHR ''/'') (?a @ ''/'') = ?a"
    using c by (simp add: rstrip_def)
  have notall: "\<not> list_all (\<lambda>c. c = CHR ''/'') (?a @ ''/'')"
    using assms(1,2) by (cases d) (auto simp: list_all_iff)
  have "os_path_split (?a @ CHR ''/'' # f) = (?a, f)"
    unfolding os_path_split_def cut_at_last_slash [OF assms(3)] Let_def
    using rs notall by simp
  then show ?thesis
    unfolding p using assms(2) by (simp add: basename_append del: append_assoc)
qed


lemma resolve_child:
  "src \<noteq> [] \<Longrightarrow> resolve w (src @ ''/'' @ d) = resolve w src @ ''/'' @ d"
  by (cases src) (simp_all add: resolve_def)

lemma glob_item:
  "(case strip_prefix pre k of None \<Rightarrow> [] | Some r \<Rightarrow> if ok r then [g r] else [])
     = (if ok (drop (length pre) k) \<and> k = pre @ drop (length pre) k then [g (drop (length pre) k)] else [])"
proof (cases "take (length pre) k = pre")
  case True
  then have "k = pre @ drop (length pre) k" by (metis append_take_drop_id)
  with True show ?thesis by (simp add: strip_prefix_def)
next
  case False
  then have "k \<noteq> pre @ drop (length pre) k" by (metis append_eq_conv_conj)
  with False show ?thesis by (simp add: strip_prefix_def)
qed

lemma dataset_part_intro:
  assumes "d \<noteq> []" and "CHR ''/'' \<notin> set d" and "take 1 d \<noteq> ''.''" and "is_part f"
  shows "is_dataset_part (d @ CHR ''/'' # f)"
  using assms by (simp add: is_dataset_part_def Let_def until_slash)

lemma dataset_part_elim:
  assumes "is_dataset_part r"
  obtains d f where "r = d @ CHR ''/'' # f" "d \<noteq> []" "CHR ''/'' \<notin> set d" "is_part f"
proof -
  let ?d = "takeWhile (\<lambda>c. c \<noteq> CHR ''/'') r"
  let ?t = "dropWhile (\<lambda>c. c \<noteq> CHR ''/'') r"
  from assms have d: "?d \<noteq> []" and l: "length ?d < length r" and p: "is_part (drop (length ?d + 1) r)"
    by (simp_all add: is_dataset_part_def Let_def)
  have r: "r = ?d @ ?t" by simp
  with l have "?t \<noteq> []" by (metis append_Nil2 less_irrefl)
  then obtain c t where t: "?t = c # t" by (cases ?t) auto
  with hd_dropWhile [of "\<lambda>c. c \<noteq> CHR ''/''" r] have c: "c = CHR ''/''" by simp
  have "drop (length ?d + 1) r = drop (length ?d + 1) (?d @ ?t)" by simp
  also have "\<dots> = t" unfolding t by simp
  finally have f: "drop (length ?d + 1) r = t" .
  have "CHR ''/'' \<notin> set ?d" by (auto dest: set_takeWhileD)
  moreover from r t c have "r = ?d @ CHR ''/'' # t" by simp
  ultimately show thesis using d p f that by simp
qed

lemma item_count:
  assumes "src \<noteq> []" and "d \<noteq> []" and "CHR ''/'' \<notin> set d" and "take 1 d \<noteq> ''.''"
  shows "count_list
           (map (\<lambda>ds_dir. os_path_basename (fst (os_path_split ds_dir)))
              (case strip_prefix (resolve w src @ ''/'') k of None \<Rightarrow> []
               | Some r \<Rightarrow> if is_dataset_part r then [src @ ''/'' @ r] else [])) d
         = length (case strip_prefix (resolve w (src @ ''/'' @ d) @ ''/'') k of None \<Rightarrow> []
               | Some r \<Rightarrow> if is_part r then [(src @ ''/'' @ d) @ ''/'' @ r] else [])"
proof -
  define R where "R = resolve w src @ ''/''"
  define R' where "R' = resolve w (src @ ''/'' @ d) @ ''/''"
  define r where "r = drop (length R) k"
  define f where "f = drop (length R') k"
  have R': "R' = R @ d @ ''/''"
    using resolve_child [OF assms(1), of w d] by (simp add: R_def R'_def)
  have eq: "(is_part f \<and> k = R' @ f)
            \<longleftrightarrow> (is_dataset_part r \<and> k = R @ r
                 \<and> os_path_basename (fst (os_path_split (src @ ''/'' @ r))) = d)"
  proof
    assume a: "is_part f \<and> k = R' @ f"
    then have k: "k = R @ (d @ CHR ''/'' # f)" by (simp add: R')
    then have r: "r = d @ CHR ''/'' # f" unfolding r_def by (metis append_eq_conv_conj)
    from a have nf: "CHR ''/'' \<notin> set f" by (simp add: is_part_def)
    have "is_dataset_part r"
      unfolding r using assms(2-4) a by (intro dataset_part_intro) simp_all
    moreover have "k = R @ r" using k r by simp
    moreover have "os_path_basename (fst (os_path_split (src @ ''/'' @ r))) = d"
      unfolding r using dataset_of_path [OF assms(2,3) nf, of src] by simp
    ultimately show "is_dataset_part r \<and> k = R @ r
                 \<and> os_path_basename (fst (os_path_split (src @ ''/'' @ r))) = d" by blast
  next
    assume a: "is_dataset_part r \<and> k = R @ r
                 \<and> os_path_basename (fst (os_path_split (src @ ''/'' @ r))) = d"
    then obtain d' f' where r: "r = d' @ CHR ''/'' # f'" and d': "d' \<noteq> []" "CHR ''/'' \<notin> set d'"
      and f: "is_part f'" by (auto elim: dataset_part_elim)
    from f have nf: "CHR ''/'' \<notin> set f'" by (simp add: is_part_def)
    from dataset_of_path [OF d' nf, of src] a r have "d' = d" by simp
    with a r have k: "k = R' @ f'" by (simp add: R')
    then have "f = f'" unfolding f_def by (metis append_eq_conv_conj)
    with k f show "is_part f \<and> k = R' @ f" by simp
  qed
  have "count_list
           (map (\<lambda>ds_dir. os_path_basename (fst (os_path_split ds_dir)))
              (case strip_prefix R k of None \<Rightarrow> []
               | Some r \<Rightarrow> if is_dataset_part r then [src @ ''/'' @ r] else [])) d
         = length (case strip_prefix R' k of None \<Rightarrow> []
               | Some r \<Rightarrow> if is_part r then [(src @ ''/'' @ d) @ ''/'' @ r] else [])"
    unfolding glob_item using eq by (auto simp: r_def f_def)
  then show ?thesis unfolding R_def R'_def .
qed

lemma discover_count:
  assumes "src \<noteq> []" and "d \<noteq> []" and "CHR ''/'' \<notin> set d" and "take 1 d \<noteq> ''.''"
  shows "count_list (map (\<lambda>ds_dir. os_path_basename (fst (os_path_split ds_dir))) (glob_all src w)) d
         = length (glob_table src d w)"
proof -
  have "count_list (map (\<lambda>ds_dir. os_path_basename (fst (os_path_split ds_dir)))
           (concat (map (\<lambda>k. case strip_prefix (resolve w src @ ''/'') k of None \<Rightarrow> []
               | Some r \<Rightarrow> if is_dataset_part r then [src @ ''/'' @ r] else []) ks))) d
        = length (concat (map (\<lambda>k. case strip_prefix (resolve w (src @ ''/'' @ d) @ ''/'') k of None \<Rightarrow> []
               | Some r \<Rightarrow> if is_part r then [(src @ ''/'' @ d) @ ''/'' @ r] else []) ks))" for ks
  proof (induction ks)
    case Nil
    show ?case by simp
  next
    case (Cons k ks)
    from item_count [OF assms, of w k] Cons show ?case
      by (simp only: list.map concat.simps map_append count_list_append length_append)
  qed
  then show ?thesis unfolding glob_all_def glob_table_def glob_under_def .
qed

text \<open>
  C5, as claimed: auto-discovery returns the name of a dataset with several partition
  files exactly once, so the dataset is processed once per run. The shop has two
  partition files of \<open>sales\<close>: the discovery returns \<open>sales\<close> twice, and the run
  without an argument reads the first partition file of \<open>sales\<close> twice.
\<close>

theorem discover_counterexample:
  "fst (discover ''/data/src'' shop_world) = Inr [''sales'', ''sales'', ''users'']
   \<and> count_list (io (snd (main NoArg shop_world))) (ReadCsv ''/data/src/sales/part-001'') = 2"
  by code_simp

text \<open>
  C5, amended: auto-discovery returns one name for every path that matches
  \<open>src/*/part-*\<close>, so the name of a dataset directory comes as many times as the
  directory has partition files; the result is not deduplicated, and \<open>main\<close> runs
  \<open>convert_file\<close> once for every entry of the result, in order. (A dataset directory
  has a non-empty name without a slash that does not start with a dot; the roots are
  those of the environment.)
\<close>


theorem discover_one_name_per_partition:
  assumes "environ w ''SRC_BASE_DIR'' = Some src" and "src \<noteq> []"
    and "environ w ''TGT_BASE_DIR'' = Some tgt" and "tgt \<noteq> []"
    and "fst (discover src w) = Inr names"
    and "d \<noteq> []" and "CHR ''/'' \<notin> set d" and "take 1 d \<noteq> ''.''"
  shows "length names = length (glob_all src w)
         \<and> count_list names d = length (glob_table src d w)
         \<and> main NoArg w = on_error (convert_all src tgt names (snd (discover src w)))
                              (\<lambda>e. say CRITICAL ''An unhandled exception occurred'')"
proof -
  from assms(5) have n: "names = map (\<lambda>ds_dir. os_path_basename (fst (os_path_split ds_dir))) (glob_all src w)"
    by (auto simp: discover_def Let_def glob_all_def split: if_splits)
  from assms(5) obtain w' where d: "discover src w = (Inr names, w')"
    by (cases "discover src w") auto
  have env: "\<not> (unset (environ w ''TGT_BASE_DIR'') \<or> unset (environ w ''SRC_BASE_DIR''))"
    using assms(1-4) by (simp add: unset_def)
  have "main NoArg w = on_error (convert_all src tgt names (snd (discover src w)))
                              (\<lambda>e. say CRITICAL ''An unhandled exception occurred'')"
    using env assms(1,3) d by (simp add: main_def Let_def andthen_def)
  with n discover_count [OF assms(2,6,7,8), of w] show ?thesis by simp
qed

theorem discover_one_name_per_partition_witness:
  "fst (discover ''/data/src'' shop_world) = Inr [''sales'', ''sales'', ''users'']
   \<and> glob_table ''/data/src'' ''sales'' shop_world = [''/data/src/sales/part-001'', ''/data/src/sales/part-002'']
   \<and> count_list [''sales'', ''sales'', ''users''] ''sales'' = length (glob_table ''/data/src'' ''sales'' shop_world)
   \<and> main NoArg shop_world
       = on_error (convert_all ''/data/src'' ''/data/tgt'' [''sales'', ''sales'', ''users'']
                     (snd (discover ''/data/src'' shop_world)))
           (\<lambda>e. say CRITICAL ''An unhandled exception occurred'')"
proof -
  have h: "environ shop_world ''SRC_BASE_DIR'' = Some ''/data/src''" "''/data/src'' \<noteq> []"
    "environ shop_world ''TGT_BASE_DIR'' = Some ''/data/tgt''" "''/data/tgt'' \<noteq> []"
    by (simp_all add: shop_world_def)
  have n: "fst (discover ''/data/src'' shop_world) = Inr [''sales'', ''sales'', ''users'']" by code_simp
  have d: "''sales'' \<noteq> []" "CHR ''/'' \<notin> set ''sales''" "take 1 ''sales'' \<noteq> ''.''" by simp_all
  have g: "glob_table ''/data/src'' ''sales'' shop_world
             = [''/data/src/sales/part-001'', ''/data/src/sales/part-002'']" by code_simp
  from discover_one_name_per_partition [OF h n d] n g show ?thesis by blast
qed

subsection \<open>Rows with fewer or more fields than names\<close>

lemma length_convert_column [simp]: "length (convert_column col) = length col"
  by (simp add: convert_column_def Let_def)





lemma map_of_put_file [simp]: "map_of (put_file k v fs) k = Some v"
  by (induction fs) auto












end
